theory Spec2Isabelle
  imports Complex_Main
begin

section \<open>JavaScript numbers\<close>

text \<open>
  A JavaScript number is a finite value, one of the two infinities, or NaN. Finite values
  are exact reals here: the rounding and the overflow of IEEE doubles are not modelled,
  and neither is the sign of zero (every zero divides like \<open>+0\<close>). A value that may be
  \<open>null\<close> or \<open>undefined\<close> is a \<open>jsnum option\<close>, \<open>None\<close> standing for both.
\<close>

datatype jsnum = Fin real | PInf | NInf | NaN

fun js_neg :: "jsnum \<Rightarrow> jsnum" where
  "js_neg (Fin a) = Fin (- a)"
| "js_neg PInf = NInf"
| "js_neg NInf = PInf"
| "js_neg NaN = NaN"

fun js_add :: "jsnum \<Rightarrow> jsnum \<Rightarrow> jsnum" where
  "js_add NaN _ = NaN"
| "js_add _ NaN = NaN"
| "js_add (Fin a) (Fin b) = Fin (a + b)"
| "js_add PInf NInf = NaN"
| "js_add NInf PInf = NaN"
| "js_add PInf _ = PInf"
| "js_add _ PInf = PInf"
| "js_add NInf _ = NInf"
| "js_add _ NInf = NInf"

definition js_sub :: "jsnum \<Rightarrow> jsnum \<Rightarrow> jsnum" where
  "js_sub a b = js_add a (js_neg b)"

fun js_mul :: "jsnum \<Rightarrow> jsnum \<Rightarrow> jsnum" where
  "js_mul NaN _ = NaN"
| "js_mul _ NaN = NaN"
| "js_mul (Fin a) (Fin b) = Fin (a * b)"
| "js_mul (Fin a) PInf = (if a = 0 then NaN else if 0 < a then PInf else NInf)"
| "js_mul (Fin a) NInf = (if a = 0 then NaN else if 0 < a then NInf else PInf)"
| "js_mul PInf (Fin b) = (if b = 0 then NaN else if 0 < b then PInf else NInf)"
| "js_mul NInf (Fin b) = (if b = 0 then NaN else if 0 < b then NInf else PInf)"
| "js_mul PInf PInf = PInf"
| "js_mul PInf NInf = NInf"
| "js_mul NInf PInf = NInf"
| "js_mul NInf NInf = PInf"

fun js_div :: "jsnum \<Rightarrow> jsnum \<Rightarrow> jsnum" where
  "js_div NaN _ = NaN"
| "js_div _ NaN = NaN"
| "js_div (Fin a) (Fin b) =
     (if b = 0 then (if a = 0 then NaN else if 0 < a then PInf else NInf) else Fin (a / b))"
| "js_div (Fin a) _ = Fin 0"
| "js_div PInf (Fin b) = (if 0 \<le> b then PInf else NInf)"
| "js_div NInf (Fin b) = (if 0 \<le> b then NInf else PInf)"
| "js_div _ _ = NaN"

fun js_abs :: "jsnum \<Rightarrow> jsnum" where
  "js_abs (Fin a) = Fin \<bar>a\<bar>"
| "js_abs PInf = PInf"
| "js_abs NInf = PInf"
| "js_abs NaN = NaN"

text \<open>The comparisons \<open><\<close>, \<open>>\<close>, \<open>>=\<close> and \<open>===\<close>: each is false when an operand is NaN.\<close>

fun js_lt :: "jsnum \<Rightarrow> jsnum \<Rightarrow> bool" where
  "js_lt NaN _ = False"
| "js_lt _ NaN = False"
| "js_lt (Fin a) (Fin b) = (a < b)"
| "js_lt NInf NInf = False"
| "js_lt NInf _ = True"
| "js_lt _ NInf = False"
| "js_lt PInf _ = False"
| "js_lt (Fin a) PInf = True"

definition js_gt :: "jsnum \<Rightarrow> jsnum \<Rightarrow> bool" where
  "js_gt a b = js_lt b a"

definition js_eq :: "jsnum \<Rightarrow> jsnum \<Rightarrow> bool" where
  "js_eq a b = (a \<noteq> NaN \<and> a = b)"

definition js_ge :: "jsnum \<Rightarrow> jsnum \<Rightarrow> bool" where
  "js_ge a b = (js_lt b a \<or> js_eq a b)"

text \<open>\<open>Math.max\<close> and \<open>Math.min\<close> return NaN as soon as one argument is NaN.\<close>

definition js_max :: "jsnum \<Rightarrow> jsnum \<Rightarrow> jsnum" where
  "js_max a b = (if a = NaN \<or> b = NaN then NaN else if js_lt a b then b else a)"

definition js_min :: "jsnum \<Rightarrow> jsnum \<Rightarrow> jsnum" where
  "js_min a b = (if a = NaN \<or> b = NaN then NaN else if js_lt b a then b else a)"

fun js_sqrt :: "jsnum \<Rightarrow> jsnum" where
  "js_sqrt (Fin a) = (if a < 0 then NaN else Fin (sqrt a))"
| "js_sqrt PInf = PInf"
| "js_sqrt NInf = NaN"
| "js_sqrt NaN = NaN"

text \<open>\<open>Math.round\<close> rounds to the nearest integer, a half going up.\<close>

fun js_round :: "jsnum \<Rightarrow> jsnum" where
  "js_round (Fin a) = Fin (of_int \<lfloor>a + 1 / 2\<rfloor>)"
| "js_round x = x"

text \<open>
  \<open>Number(x.toFixed(d))\<close>: the nearest multiple of \<open>10^-d\<close>, a half going away from
  zero; from \<open>10^21\<close> on \<open>toFixed\<close> prints the number itself.
\<close>

fun toFixed :: "nat \<Rightarrow> jsnum \<Rightarrow> jsnum" where
  "toFixed d (Fin a) =
     (if 10 ^ 21 \<le> \<bar>a\<bar> then Fin a
      else if a < 0 then Fin (- (of_int \<lfloor>- a * 10 ^ d + 1 / 2\<rfloor> / 10 ^ d))
      else Fin (of_int \<lfloor>a * 10 ^ d + 1 / 2\<rfloor> / 10 ^ d))"
| "toFixed d x = x"

text \<open>Truthiness of a number, and \<open>x || d\<close> on numbers: zero and NaN are falsy.\<close>

fun truthy :: "jsnum \<Rightarrow> bool" where
  "truthy (Fin a) = (a \<noteq> 0)"
| "truthy NaN = False"
| "truthy _ = True"

definition js_or :: "jsnum \<Rightarrow> jsnum \<Rightarrow> jsnum" where
  "js_or x d = (if truthy x then x else d)"

text \<open>Reading an array of numbers in arithmetic: out of range is \<open>undefined\<close>, hence NaN.\<close>

definition num_at :: "jsnum list \<Rightarrow> nat \<Rightarrow> jsnum" where
  "num_at xs i = (if i < length xs then xs ! i else NaN)"

section \<open>Indicators of the first variant (analysis.js, lines 138-234)\<close>

text \<open>
  analysis.js holds two variants of the engine. The names of the first carry the suffix
  \<open>_v1\<close> where the second has a function of the same name; those of the second carry
  \<open>_v2\<close>.
\<close>

text \<open>\<open>deltas[i-1] = prices[i] - prices[i-1]\<close> for \<open>1 \<le> i < prices.length\<close>.\<close>

fun deltas :: "jsnum list \<Rightarrow> jsnum list" where
  "deltas (x # y # ys) = js_sub y x # deltas (y # ys)"
| "deltas _ = []"

text \<open>The seed loop of \<open>computeRSI\<close>: a delta \<open>>= 0\<close> is a gain, anything else a loss.\<close>

definition seed_step_v1 :: "jsnum \<times> jsnum \<Rightarrow> jsnum \<Rightarrow> jsnum \<times> jsnum" where
  "seed_step_v1 gl d =
     (if js_ge d (Fin 0) then (js_add (fst gl) d, snd gl)
      else (fst gl, js_add (snd gl) (js_abs d)))"

text \<open>\<open>rs = avgLoss === 0 ? 100 : avgGain / avgLoss; 100 - (100 / (1 + rs))\<close>.\<close>

definition rsi_value_v1 :: "jsnum \<Rightarrow> jsnum \<Rightarrow> jsnum" where
  "rsi_value_v1 avgGain avgLoss =
     (let rs = (if js_eq avgLoss (Fin 0) then Fin 100 else js_div avgGain avgLoss)
      in js_sub (Fin 100) (js_div (Fin 100) (js_add (Fin 1) rs)))"

text \<open>One step of Wilder smoothing, shared by both variants' loops.\<close>

definition wilder_step :: "nat \<Rightarrow> jsnum \<times> jsnum \<Rightarrow> jsnum \<Rightarrow> jsnum \<times> jsnum" where
  "wilder_step period gl d =
     (let gain = (if js_gt d (Fin 0) then d else Fin 0);
          loss = (if js_lt d (Fin 0) then js_abs d else Fin 0)
      in (js_div (js_add (js_mul (fst gl) (Fin (real period - 1))) gain) (Fin (real period)),
          js_div (js_add (js_mul (snd gl) (Fin (real period - 1))) loss) (Fin (real period))))"

text \<open>
  The pairs \<open>(avgGain, avgLoss)\<close> the smoothing loop goes through, one for each delta it
  reads, starting after the pair \<open>gl\<close>.
\<close>

fun wilder_run :: "nat \<Rightarrow> jsnum \<times> jsnum \<Rightarrow> jsnum list \<Rightarrow> (jsnum \<times> jsnum) list" where
  "wilder_run period gl [] = []"
| "wilder_run period gl (d # ds) =
     (let gl' = wilder_step period gl d in gl' # wilder_run period gl' ds)"

text \<open>
  The running averages of \<open>computeRSI\<close>: the pair at position \<open>k\<close> is the one the code
  holds when it writes \<open>rsis[period + k]\<close>.
\<close>

definition rsi_averages_v1 :: "jsnum list \<Rightarrow> nat \<Rightarrow> (jsnum \<times> jsnum) list" where
  "rsi_averages_v1 prices period =
     (let ds = deltas prices;
          gl = foldl seed_step_v1 (Fin 0, Fin 0) (take period ds);
          seed = (js_div (fst gl) (Fin (real period)), js_div (snd gl) (Fin (real period)))
      in seed # wilder_run period seed (drop period ds))"

definition computeRSI :: "jsnum list \<Rightarrow> nat \<Rightarrow> jsnum option list" where
  "computeRSI prices period =
     (if length prices < period + 1 then replicate (length prices) None
      else replicate period None @
           map (\<lambda>gl. Some (rsi_value_v1 (fst gl) (snd gl))) (rsi_averages_v1 prices period))"

text \<open>The window \<open>arr.slice(Math.max(0, i - period + 1), i + 1)\<close>.\<close>

definition window_v1 :: "jsnum list \<Rightarrow> nat \<Rightarrow> nat \<Rightarrow> jsnum list" where
  "window_v1 arr period i = drop (i + 1 - period) (take (i + 1) arr)"

text \<open>\<open>win.reduce((a,b) => a + b, 0)\<close>.\<close>

definition js_sum :: "jsnum list \<Rightarrow> jsnum" where
  "js_sum win = foldl js_add (Fin 0) win"

text \<open>\<open>sma\<close> of the first variant: NaN and zero entries count as 0, the divisor is the
  number of values the window holds.\<close>

definition sma_at_v1 :: "jsnum list \<Rightarrow> nat \<Rightarrow> nat \<Rightarrow> jsnum" where
  "sma_at_v1 arr period i =
     (let win = window_v1 arr period i
      in js_div (foldl (\<lambda>a b. js_add a (js_or b (Fin 0))) (Fin 0) win) (Fin (real (length win))))"

definition sma_v1 :: "jsnum list \<Rightarrow> nat \<Rightarrow> jsnum list" where
  "sma_v1 arr period = map (sma_at_v1 arr period) [0..<length arr]"

text \<open>\<open>win.reduce((a,b) => a + Math.pow(b - mean, 2), 0)\<close>.\<close>

definition sq_dev_sum :: "jsnum \<Rightarrow> jsnum list \<Rightarrow> jsnum" where
  "sq_dev_sum mean win = foldl (\<lambda>a b. js_add a (js_mul (js_sub b mean) (js_sub b mean))) (Fin 0) win"

definition rollingStd_at :: "jsnum list \<Rightarrow> nat \<Rightarrow> nat \<Rightarrow> jsnum" where
  "rollingStd_at arr period i =
     (let win = window_v1 arr period i;
          mean = js_div (js_sum win) (Fin (real (length win)));
          variance = js_div (sq_dev_sum mean win) (Fin (real (length win)))
      in js_sqrt variance)"

definition rollingStd :: "jsnum list \<Rightarrow> nat \<Rightarrow> jsnum list" where
  "rollingStd arr period = map (rollingStd_at arr period) [0..<length arr]"

text \<open>The true ranges, one for each index \<open>1 \<le> i < closes.length\<close>.\<close>

definition true_range :: "jsnum list \<Rightarrow> jsnum list \<Rightarrow> jsnum list \<Rightarrow> nat \<Rightarrow> jsnum" where
  "true_range highs lows closes i =
     js_max (js_max (js_sub (num_at highs i) (num_at lows i))
                    (js_abs (js_sub (num_at highs i) (num_at closes (i - 1)))))
            (js_abs (js_sub (num_at lows i) (num_at closes (i - 1))))"

definition true_ranges :: "jsnum list \<Rightarrow> jsnum list \<Rightarrow> jsnum list \<Rightarrow> jsnum list" where
  "true_ranges highs lows closes = map (true_range highs lows closes) [1..<length closes]"

text \<open>The smoothing loop of the ATR: \<open>cur = ((prev * (period - 1)) + tr) / period\<close>.\<close>

fun atr_run :: "nat \<Rightarrow> jsnum \<Rightarrow> jsnum list \<Rightarrow> jsnum list" where
  "atr_run period prev [] = []"
| "atr_run period prev (tr # trs) =
     (let cur = js_div (js_add (js_mul prev (Fin (real period - 1))) tr) (Fin (real period))
      in cur # atr_run period cur trs)"

text \<open>\<open>atrs.find(x => x !== null)\<close>.\<close>

fun find_non_null :: "jsnum option list \<Rightarrow> jsnum option" where
  "find_non_null [] = None"
| "find_non_null (None # xs) = find_non_null xs"
| "find_non_null (Some v # xs) = Some v"

text \<open>
  The last loop of \<open>computeATR\<close>, from index \<open>i\<close> on: every \<open>null\<close> entry becomes
  \<open>atrs.find(x => x !== null) || 0\<close>, read from the array as updated so far.
\<close>

function fill_nulls :: "nat \<Rightarrow> jsnum option list \<Rightarrow> jsnum option list" where
  "fill_nulls i atrs =
     (if i < length atrs
      then fill_nulls (i + 1)
             (if atrs ! i = None
              then atrs[i := Some (case find_non_null atrs of None \<Rightarrow> Fin 0 | Some v \<Rightarrow> js_or v (Fin 0))]
              else atrs)
      else atrs)"
  by pat_completeness auto
termination
  by (relation "measure (\<lambda>(i, atrs). length atrs - i)") auto

definition computeATR :: "jsnum list \<Rightarrow> jsnum list \<Rightarrow> jsnum list \<Rightarrow> nat \<Rightarrow> jsnum option list" where
  "computeATR highs lows closes period =
     (let trs = true_ranges highs lows closes
      in if length trs < period
         then replicate (length closes)
                (Some (js_div (js_sum trs) (Fin (if length trs = 0 then 1 else real (length trs)))))
         else (let initial = js_div (js_sum (take period trs)) (Fin (real period))
               in fill_nulls 0
                    (replicate period None @ Some initial # map Some (atr_run period initial (drop period trs)))))"

section \<open>Candles and the fetchers\<close>

text \<open>
  The first column of a payload row is kept as it came (\<open>t: c[0]\<close>), and the order check
  compares two of them with \<open>>\<close>. JavaScript compares two strings as text, code by
  code, and every other pair as numbers. So a timestamp is a number, or a string
  together with the number JavaScript reads it as; a value of another kind (\<open>null\<close>,
  \<open>undefined\<close>, a boolean) compares as the number it reads as and is a \<open>TNum\<close> here.
  Characters are compared by their codes.
\<close>

datatype stamp = TNum jsnum | TStr string jsnum

fun stamp_num :: "stamp \<Rightarrow> jsnum" where
  "stamp_num (TNum n) = n"
| "stamp_num (TStr s n) = n"

fun str_lt :: "string \<Rightarrow> string \<Rightarrow> bool" where
  "str_lt s [] = False"
| "str_lt [] (y # ys) = True"
| "str_lt (x # xs) (y # ys) = ((of_char x :: nat) < of_char y \<or> (x = y \<and> str_lt xs ys))"

text \<open>\<open>a < b\<close>, \<open>a > b\<close> and \<open>a <= b\<close> on timestamps.\<close>

fun stamp_lt :: "stamp \<Rightarrow> stamp \<Rightarrow> bool" where
  "stamp_lt (TStr s m) (TStr s' n) = str_lt s s'"
| "stamp_lt a b = js_lt (stamp_num a) (stamp_num b)"

definition stamp_gt :: "stamp \<Rightarrow> stamp \<Rightarrow> bool" where
  "stamp_gt a b = stamp_lt b a"

fun stamp_le :: "stamp \<Rightarrow> stamp \<Rightarrow> bool" where
  "stamp_le (TStr s m) (TStr s' n) = (\<not> str_lt s' s)"
| "stamp_le a b = js_ge (stamp_num b) (stamp_num a)"

text \<open>
  A candle as both fetchers build it: the timestamp is the payload's first column; the
  price fields are what \<open>Number\<close> or \<open>parseFloat\<close> made of the payload, so each may be
  NaN or infinite.
\<close>

record candle =
  t :: stamp
  opn :: jsnum
  high :: jsnum
  low :: jsnum
  close :: jsnum
  vol :: jsnum

text \<open>
  The network and the shape of a payload are the environment. What one provider
  contributes to a call is one of three outcomes: an exception inside the \<open>try\<close> block
  (the request fails or times out, the response has no data, a row cannot be read), a
  response the code walks away from without building candles, or the array of candles
  built from the payload, in the payload's order. A call receives the outcomes in the
  order in which it visits the providers (shuffled in the first variant, by priority in
  the second).
\<close>

datatype attempt = Threw | NoCandles | Parsed "candle list"

datatype error = AllSourcesFailed

text \<open>\<open>candles.slice(-limit)\<close>: the last \<open>limit\<close> entries; \<open>slice(-0)\<close> is the whole array.\<close>

definition slice_last :: "nat \<Rightarrow> 'a list \<Rightarrow> 'a list" where
  "slice_last limit xs = (if limit = 0 then xs else drop (length xs - limit) xs)"

text \<open>Lines 121-125 and 426-429: the order check on an array of at least 30 candles.\<close>

definition chronological :: "candle list \<Rightarrow> candle list" where
  "chronological candles =
     (if stamp_gt (t (candles ! 0)) (t (candles ! (length candles - 1))) then rev candles
      else candles)"

fun fetchCandlesFallback :: "attempt list \<Rightarrow> nat \<Rightarrow> error + candle list" where
  "fetchCandlesFallback [] limit = Inl AllSourcesFailed"
| "fetchCandlesFallback (Threw # rest) limit = fetchCandlesFallback rest limit"
| "fetchCandlesFallback (NoCandles # rest) limit = fetchCandlesFallback rest limit"
| "fetchCandlesFallback (Parsed candles # rest) limit =
     (if 30 \<le> length candles then Inr (slice_last limit (chronological candles))
      else fetchCandlesFallback rest limit)"

fun fetchCandlesMulti :: "attempt list \<Rightarrow> candle list option" where
  "fetchCandlesMulti [] = None"
| "fetchCandlesMulti (Threw # rest) = fetchCandlesMulti rest"
| "fetchCandlesMulti (NoCandles # rest) = fetchCandlesMulti rest"
| "fetchCandlesMulti (Parsed candles # rest) =
     (if 30 \<le> length candles then Some (chronological candles)
      else fetchCandlesMulti rest)"

section \<open>The decision engine of the first variant (lines 238-357)\<close>

datatype side = LONG | SHORT

record meta =
  meta_rsi :: jsnum
  meta_lowerBB :: jsnum
  meta_upperBB :: jsnum
  meta_acceleration :: jsnum
  meta_atr :: jsnum
  meta_close :: jsnum

text \<open>
  The fields both variants return; \<open>rr\<close> is \<open>None\<close> for \<open>null\<close>. The \<open>symbol\<close> field, a
  copy of the argument, is left out.
\<close>

record signal =
  side :: side
  entry :: jsnum
  tp :: jsnum
  sl :: jsnum
  rr :: "jsnum option"

record signal_v1 = signal +
  confidence :: jsnum
  meta :: meta

definition upperBB_v1 :: "jsnum list \<Rightarrow> jsnum list" where
  "upperBB_v1 closes =
     map (\<lambda>(m, s). js_add m (js_mul (Fin 2) (js_or s (Fin 0))))
         (zip (sma_v1 closes 20) (rollingStd closes 20))"

definition lowerBB_v1 :: "jsnum list \<Rightarrow> jsnum list" where
  "lowerBB_v1 closes =
     map (\<lambda>(m, s). js_sub m (js_mul (Fin 2) (js_or s (Fin 0))))
         (zip (sma_v1 closes 20) (rollingStd closes 20))"

text \<open>The price changes, the change at index 0 being \<open>closes[0] - closes[0]\<close>.\<close>

definition priceChanges :: "jsnum list \<Rightarrow> jsnum list" where
  "priceChanges closes =
     map (\<lambda>i. js_sub (closes ! i) (if i = 0 then closes ! 0 else closes ! (i - 1))) [0..<length closes]"

definition acceleration_v1 :: "jsnum list \<Rightarrow> jsnum list" where
  "acceleration_v1 closes =
     (let vArr = sma_v1 (priceChanges closes) 3
      in map (\<lambda>i. if i = 0 then Fin 0 else js_sub (vArr ! i) (vArr ! (i - 1))) [0..<length vArr])"

text \<open>Stop-loss and take-profit (lines 305-313 and 594-602).\<close>

definition levels :: "side \<Rightarrow> jsnum \<Rightarrow> jsnum \<Rightarrow> jsnum \<times> jsnum" where
  "levels sd ent lastAtr =
     (if sd = LONG
      then (js_sub ent (js_mul (Fin (3 / 2)) lastAtr), js_add ent (js_mul (Fin 3) lastAtr))
      else (js_add ent (js_mul (Fin (3 / 2)) lastAtr), js_sub ent (js_mul (Fin 3) lastAtr)))"

text \<open>\<open>(Math.abs(tp - entry) / Math.abs(entry - sl)) || null\<close>.\<close>

definition riskReward :: "jsnum \<Rightarrow> jsnum \<Rightarrow> jsnum \<Rightarrow> jsnum option" where
  "riskReward ent slv tpv =
     (let q = js_div (js_abs (js_sub tpv ent)) (js_abs (js_sub ent slv))
      in if truthy q then Some q else None)"

text \<open>
  Lines 318-332. Nothing in the \<open>try\<close> block can throw on numbers, so its \<open>catch\<close> is
  never entered.
\<close>

definition confidence_v1 :: "side \<Rightarrow> jsnum \<Rightarrow> jsnum \<Rightarrow> jsnum \<Rightarrow> jsnum \<Rightarrow> jsnum" where
  "confidence_v1 sd lastRsi lastA ent lastAtr =
     (let c1 = js_add (Fin 70)
                 (if sd = LONG then js_min (Fin 15) (js_sub (Fin 30) lastRsi)
                  else js_min (Fin 15) (js_sub lastRsi (Fin 70)));
          accScore = js_min (Fin 10)
                       (js_mul (js_div (js_abs lastA) (js_or ent (Fin 1))) (Fin 1000));
          c2 = js_add c1 accScore;
          atrRel = js_div lastAtr (js_or ent (Fin 1));
          c3 = (if js_lt atrRel (Fin (5 / 1000)) then js_add c2 (Fin 5) else c2)
      in js_max (Fin 30) (js_min (Fin 95) (js_round c3)))"

text \<open>Lines 299-350: from the values at the last index to the result.\<close>

definition decide_v1 :: "jsnum \<Rightarrow> jsnum \<Rightarrow> jsnum \<Rightarrow> jsnum \<Rightarrow> jsnum \<Rightarrow> jsnum \<Rightarrow> signal_v1 option" where
  "decide_v1 lastClose lastRsi lastLowerBB lastUpperBB lastA lastAtr =
     (let side0 = (if js_lt lastRsi (Fin 30) \<and> js_lt lastClose lastLowerBB \<and> js_gt lastA (Fin 0)
                   then Some LONG else None);
          side1 = (if js_gt lastRsi (Fin 70) \<and> js_gt lastClose lastUpperBB \<and> js_lt lastA (Fin 0)
                   then Some SHORT else side0)
      in case side1 of
           None \<Rightarrow> None
         | Some sd \<Rightarrow>
            (let ent = lastClose;
                 lv = levels sd ent lastAtr;
                 r = riskReward ent (fst lv) (snd lv)
             in Some \<lparr> side = sd, entry = ent, tp = snd lv, sl = fst lv,
                       rr = (case r of None \<Rightarrow> None | Some q \<Rightarrow> Some (toFixed 2 q)),
                       confidence = confidence_v1 sd lastRsi lastA ent lastAtr,
                       meta = \<lparr> meta_rsi = toFixed 2 (js_or lastRsi (Fin 0)),
                                meta_lowerBB = toFixed 8 (js_or lastLowerBB (Fin 0)),
                                meta_upperBB = toFixed 8 (js_or lastUpperBB (Fin 0)),
                                meta_acceleration = toFixed 8 (js_or lastA (Fin 0)),
                                meta_atr = toFixed 8 (js_or lastAtr (Fin 0)),
                                meta_close = lastClose \<rparr> \<rparr>))"

text \<open>
  Lines 248-350, on the candles the fetcher returned. The bands and the acceleration
  are results of arithmetic, so they are never \<open>null\<close>; the RSI and the ATR arrays may
  hold \<open>null\<close>.
\<close>

definition analyzeCandles_v1 :: "candle list \<Rightarrow> signal_v1 option" where
  "analyzeCandles_v1 candles =
     (if length candles < 40 then None
      else (let highs = map high candles;
                lows = map low candles;
                closes = map close candles;
                idx = length closes - 1
            in case (computeRSI closes 14 ! idx, computeATR highs lows closes 14 ! idx) of
                 (Some lastRsi, Some lastAtr) \<Rightarrow>
                    decide_v1 (closes ! idx) lastRsi (lowerBB_v1 closes ! idx)
                      (upperBB_v1 closes ! idx) (acceleration_v1 closes ! idx) lastAtr
               | _ \<Rightarrow> None))"

text \<open>
  \<open>analyzePhysics\<close> of the first variant: the body of its \<open>try\<close> block, where the
  fetcher's exception is the only one, and the function with its \<open>catch\<close>, which returns
  \<open>null\<close>. \<open>opts.limit || 200\<close> replaces a limit of 0.
\<close>

definition analyzePhysics_try_v1 :: "attempt list \<Rightarrow> nat \<Rightarrow> error + signal_v1 option" where
  "analyzePhysics_try_v1 attempts limit =
     (case fetchCandlesFallback attempts (if limit = 0 then 200 else limit) of
        Inl e \<Rightarrow> Inl e
      | Inr candles \<Rightarrow> Inr (analyzeCandles_v1 candles))"

definition analyzePhysics_v1 :: "attempt list \<Rightarrow> nat \<Rightarrow> error + signal_v1 option" where
  "analyzePhysics_v1 attempts limit =
     (case analyzePhysics_try_v1 attempts limit of
        Inl e \<Rightarrow> Inr None
      | Inr r \<Rightarrow> Inr r)"

section \<open>The second variant (lines 360-621)\<close>

text \<open>\<open>sma\<close> and \<open>stddev\<close>: \<open>null\<close> until the index has \<open>len\<close> values behind it.\<close>

definition window_v2 :: "jsnum list \<Rightarrow> nat \<Rightarrow> nat \<Rightarrow> jsnum list" where
  "window_v2 arr len i = drop (i + 1 - len) (take (i + 1) arr)"

definition sma_v2 :: "jsnum list \<Rightarrow> nat \<Rightarrow> jsnum option list" where
  "sma_v2 arr len =
     map (\<lambda>i. if i + 1 < len then None
              else Some (js_div (js_sum (window_v2 arr len i)) (Fin (real len))))
         [0..<length arr]"

definition stddev :: "jsnum list \<Rightarrow> nat \<Rightarrow> jsnum option list" where
  "stddev arr len =
     map (\<lambda>i. if i + 1 < len then None
              else (let slice = window_v2 arr len i;
                        mean = js_div (js_sum slice) (Fin (real len));
                        variance = js_div (sq_dev_sum mean slice) (Fin (real len))
                    in Some (js_sqrt variance)))
         [0..<length arr]"

text \<open>The seed loop of \<open>rsiFromArray\<close>: a change \<open>> 0\<close> is a gain, anything else a loss.\<close>

definition seed_step_v2 :: "jsnum \<times> jsnum \<Rightarrow> jsnum \<Rightarrow> jsnum \<times> jsnum" where
  "seed_step_v2 gl v =
     (if js_gt v (Fin 0) then (js_add (fst gl) v, snd gl)
      else (fst gl, js_add (snd gl) (js_abs v)))"

text \<open>\<open>avgLoss === 0 ? 100 : 100 - (100 / (1 + avgGain / avgLoss))\<close>.\<close>

definition rsi_value_v2 :: "jsnum \<Rightarrow> jsnum \<Rightarrow> jsnum" where
  "rsi_value_v2 avgGain avgLoss =
     (if js_eq avgLoss (Fin 0) then Fin 100
      else js_sub (Fin 100) (js_div (Fin 100) (js_add (Fin 1) (js_div avgGain avgLoss))))"

definition rsi_averages_v2 :: "jsnum list \<Rightarrow> nat \<Rightarrow> (jsnum \<times> jsnum) list" where
  "rsi_averages_v2 closes period =
     (let changes = deltas closes;
          gl = foldl seed_step_v2 (Fin 0, Fin 0) (take period changes);
          seed = (js_div (fst gl) (Fin (real period)), js_div (snd gl) (Fin (real period)))
      in seed # wilder_run period seed (drop period changes))"

definition rsiFromArray :: "jsnum list \<Rightarrow> nat \<Rightarrow> jsnum option list" where
  "rsiFromArray closes period =
     (if length (deltas closes) < period then replicate (length closes) None
      else replicate period None @
           map (\<lambda>gl. Some (rsi_value_v2 (fst gl) (snd gl))) (rsi_averages_v2 closes period))"

definition atrFromCandles :: "jsnum list \<Rightarrow> jsnum list \<Rightarrow> jsnum list \<Rightarrow> nat \<Rightarrow> jsnum option list" where
  "atrFromCandles highs lows closes period =
     (let trs = true_ranges highs lows closes
      in if length trs < period then replicate (length closes) None
         else (let prevAtr = js_div (js_sum (take period trs)) (Fin (real period))
               in replicate period None @ Some prevAtr # map Some (atr_run period prevAtr (drop period trs))))"

text \<open>\<open>x || 0\<close> on an entry that may be \<open>null\<close>, and \<open>null\<close> read as a number.\<close>

definition or_zero :: "jsnum option \<Rightarrow> jsnum" where
  "or_zero x = (case x of None \<Rightarrow> Fin 0 | Some v \<Rightarrow> js_or v (Fin 0))"

definition num_of :: "jsnum option \<Rightarrow> jsnum" where
  "num_of x = (case x of None \<Rightarrow> Fin 0 | Some v \<Rightarrow> v)"

text \<open>\<open>computeVelocityAcceleration\<close>: the arrays \<open>pc\<close>, \<open>v\<close> and \<open>a\<close>.\<close>

definition pc_v2 :: "jsnum list \<Rightarrow> jsnum option list" where
  "pc_v2 closes = None # map Some (deltas closes)"

definition velocity_v2 :: "jsnum list \<Rightarrow> jsnum option list" where
  "velocity_v2 closes =
     (let pc = pc_v2 closes
      in map (\<lambda>i. if i < 2 then None
                   else Some (js_div (js_add (js_add (or_zero (pc ! i)) (or_zero (pc ! (i - 1))))
                                             (or_zero (pc ! (i - 2))))
                                     (Fin 3)))
             [0..<length pc])"

definition acceleration_v2 :: "jsnum list \<Rightarrow> jsnum option list" where
  "acceleration_v2 closes =
     (let v = velocity_v2 closes
      in None # map (\<lambda>i. case (v ! i, v ! (i - 1)) of
                            (Some x, Some y) \<Rightarrow> Some (js_sub x y)
                          | _ \<Rightarrow> None)
                    [1..<length v])"

definition bbUpper :: "jsnum list \<Rightarrow> jsnum option list" where
  "bbUpper closes =
     map (\<lambda>(m, s). case m of None \<Rightarrow> None
                    | Some mv \<Rightarrow> Some (js_add mv (js_mul (Fin 2) (num_of s))))
         (zip (sma_v2 closes 20) (stddev closes 20))"

definition bbLower :: "jsnum list \<Rightarrow> jsnum option list" where
  "bbLower closes =
     map (\<lambda>(m, s). case m of None \<Rightarrow> None
                    | Some mv \<Rightarrow> Some (js_sub mv (js_mul (Fin 2) (num_of s))))
         (zip (sma_v2 closes 20) (stddev closes 20))"

text \<open>The check of line 580: \<open>null\<close>, \<open>undefined\<close> or NaN.\<close>

definition missing :: "jsnum option \<Rightarrow> bool" where
  "missing x = (x = None \<or> x = Some NaN)"

text \<open>Lines 584-613: from the values at the last index to the result.\<close>

definition decide_v2 :: "jsnum \<Rightarrow> jsnum \<Rightarrow> jsnum \<Rightarrow> jsnum \<Rightarrow> jsnum \<Rightarrow> jsnum \<Rightarrow> signal option" where
  "decide_v2 lastClose lastRsi lastLower lastUpper lastA lastAtr =
     (let side0 = (if js_lt lastRsi (Fin 30) \<and> js_lt lastClose lastLower \<and> js_gt lastA (Fin 0)
                   then Some LONG
                   else if js_gt lastRsi (Fin 70) \<and> js_gt lastClose lastUpper \<and> js_lt lastA (Fin 0)
                   then Some SHORT
                   else None)
      in case side0 of
           None \<Rightarrow> None
         | Some sd \<Rightarrow>
            (let ent = lastClose;
                 lv = levels sd ent lastAtr;
                 r = riskReward ent (fst lv) (snd lv)
             in Some \<lparr> side = sd, entry = ent, tp = snd lv, sl = fst lv,
                       rr = Some (num_of r) \<rparr>))"

definition analyzeCandles_v2 :: "candle list \<Rightarrow> signal option" where
  "analyzeCandles_v2 candles =
     (if length candles < 40 then None
      else (let highs = map high candles;
                lows = map low candles;
                closes = map close candles;
                idx = length closes - 1;
                lastRsi = rsiFromArray closes 14 ! idx;
                lastLower = bbLower closes ! idx;
                lastUpper = bbUpper closes ! idx;
                lastA = acceleration_v2 closes ! idx;
                lastAtr = atrFromCandles highs lows closes 14 ! idx
            in if missing lastRsi \<or> missing lastLower \<or> missing lastUpper \<or> missing lastA
                  \<or> missing lastAtr
               then None
               else decide_v2 (closes ! idx) (num_of lastRsi) (num_of lastLower) (num_of lastUpper)
                      (num_of lastA) (num_of lastAtr)))"

text \<open>
  \<open>analyzePhysics\<close> of the second variant. Its fetcher returns \<open>null\<close> instead of
  throwing, and nothing after it throws, so the \<open>catch\<close> is never entered.
\<close>

definition analyzePhysics_v2 :: "attempt list \<Rightarrow> error + signal option" where
  "analyzePhysics_v2 attempts =
     (case fetchCandlesMulti attempts of
        None \<Rightarrow> Inr None
      | Some candles \<Rightarrow> Inr (analyzeCandles_v2 candles))"

section \<open>Notions of the claims and concrete inputs\<close>


text \<open>
  The payload a call accepts: the first one in the order of the visit that holds at
  least 30 candles.
\<close>

fun accepted :: "attempt list \<Rightarrow> candle list option" where
  "accepted [] = None"
| "accepted (Threw # rest) = accepted rest"
| "accepted (NoCandles # rest) = accepted rest"
| "accepted (Parsed candles # rest) = (if 30 \<le> length candles then Some candles else accepted rest)"










text \<open>Fifteen closes that only rise, so that the average loss is zero from the seed on.\<close>

definition rising_closes :: "jsnum list" where
  "rising_closes = map Fin [1, 2, 3, 4, 5, 6, 7, 8, 9, 10, 11, 12, 13, 14, 15]"

text \<open>
  The values at the last index, under the names \<open>analyzePhysics\<close> gives them. In the
  first variant the bands and the acceleration are numbers; in the second every value
  may be \<open>null\<close>.
\<close>

definition lastClose :: "candle list \<Rightarrow> jsnum" where
  "lastClose candles = map close candles ! (length candles - 1)"

definition lastRsi_v1 :: "candle list \<Rightarrow> jsnum option" where
  "lastRsi_v1 candles = computeRSI (map close candles) 14 ! (length candles - 1)"

definition lastLowerBB_v1 :: "candle list \<Rightarrow> jsnum" where
  "lastLowerBB_v1 candles = lowerBB_v1 (map close candles) ! (length candles - 1)"

definition lastUpperBB_v1 :: "candle list \<Rightarrow> jsnum" where
  "lastUpperBB_v1 candles = upperBB_v1 (map close candles) ! (length candles - 1)"

definition lastA_v1 :: "candle list \<Rightarrow> jsnum" where
  "lastA_v1 candles = acceleration_v1 (map close candles) ! (length candles - 1)"

definition lastAtr_v1 :: "candle list \<Rightarrow> jsnum option" where
  "lastAtr_v1 candles =
     computeATR (map high candles) (map low candles) (map close candles) 14 ! (length candles - 1)"

definition lastRsi_v2 :: "candle list \<Rightarrow> jsnum option" where
  "lastRsi_v2 candles = rsiFromArray (map close candles) 14 ! (length candles - 1)"

definition lastLower_v2 :: "candle list \<Rightarrow> jsnum option" where
  "lastLower_v2 candles = bbLower (map close candles) ! (length candles - 1)"

definition lastUpper_v2 :: "candle list \<Rightarrow> jsnum option" where
  "lastUpper_v2 candles = bbUpper (map close candles) ! (length candles - 1)"

definition lastA_v2 :: "candle list \<Rightarrow> jsnum option" where
  "lastA_v2 candles = acceleration_v2 (map close candles) ! (length candles - 1)"

definition lastAtr_v2 :: "candle list \<Rightarrow> jsnum option" where
  "lastAtr_v2 candles =
     atrFromCandles (map high candles) (map low candles) (map close candles) 14 ! (length candles - 1)"

text \<open>
  The smoothed values both ATR functions hold from index \<open>period\<close> on: the mean of the
  first \<open>period\<close> true ranges, then one smoothing step for each further true range.
\<close>

definition atr_values :: "jsnum list \<Rightarrow> nat \<Rightarrow> jsnum list" where
  "atr_values trs period =
     (let initial = js_div (js_sum (take period trs)) (Fin (real period))
      in initial # atr_run period initial (drop period trs))"

text \<open>
  The score as the specification words it, \<open>ent\<close> being the divisor of the acceleration
  and of the ATR.
\<close>

definition confidence_spec :: "side \<Rightarrow> jsnum \<Rightarrow> jsnum \<Rightarrow> jsnum \<Rightarrow> jsnum \<Rightarrow> jsnum" where
  "confidence_spec sd rsi acc ent atr =
     js_max (Fin 30) (js_min (Fin 95) (js_round
       (js_add
          (js_add
             (js_add (Fin 70)
                (case sd of LONG \<Rightarrow> js_min (Fin 15) (js_sub (Fin 30) rsi)
                          | SHORT \<Rightarrow> js_min (Fin 15) (js_sub rsi (Fin 70))))
             (js_min (Fin 10) (js_mul (js_div (js_abs acc) ent) (Fin 1000))))
          (if js_lt (js_div atr ent) (Fin (5 / 1000)) then Fin 5 else Fin 0))))"

text \<open>A number that is finite or negative infinity.\<close>

definition bounded_above :: "jsnum \<Rightarrow> bool" where
  "bounded_above x = (x = NInf \<or> (\<exists>v. x = Fin v))"

text \<open>
  Concrete series of 40 candles, five minutes apart, each opening at its close. The
  closes stay at 114 for 36 candles and then fall to 112, 109, 101 and 100, which gives
  an RSI of 0, bands at 104.1 and 120.5 and an acceleration of 1/3 at the last index:
  a LONG signal with entry 100.
\<close>

definition mk_candles :: "jsnum list \<Rightarrow> jsnum list \<Rightarrow> jsnum list \<Rightarrow> candle list" where
  "mk_candles highs lows closes =
     map (\<lambda>i. \<lparr> t = TNum (Fin (real i * 300000)), opn = closes ! i, high = highs ! i, low = lows ! i,
                  close = closes ! i, vol = Fin 1 \<rparr>) [0..<length closes]"

definition falling_closes :: "jsnum list" where
  "falling_closes = map Fin [114, 114, 114, 114, 114, 114, 114, 114, 114, 114, 114, 114,
     114, 114, 114, 114, 114, 114, 114, 114, 114, 114, 114, 114, 114, 114, 114, 114, 114,
     114, 114, 114, 114, 114, 114, 114, 112, 109, 101, 100]"

text \<open>Highs and lows at a distance \<open>d\<close> around the previous close.\<close>

definition highs_around :: "real \<Rightarrow> jsnum list \<Rightarrow> jsnum list" where
  "highs_around d closes =
     map (\<lambda>i. js_add (closes ! (i - 1)) (Fin d)) [0..<length closes]"

definition lows_around :: "real \<Rightarrow> jsnum list \<Rightarrow> jsnum list" where
  "lows_around d closes =
     map (\<lambda>i. js_sub (closes ! (i - 1)) (Fin d)) [0..<length closes]"

text \<open>True ranges of 2 throughout, so an ATR of 2, and the signals of both variants.\<close>

definition atr2_candles :: "candle list" where
  "atr2_candles = mk_candles (highs_around 1 falling_closes) (lows_around 1 falling_closes) falling_closes"

definition atr2_signal_v1 :: signal_v1 where
  "atr2_signal_v1 =
     \<lparr> side = LONG, entry = Fin 100, tp = Fin 106, sl = Fin 97, rr = Some (Fin 2),
       confidence = Fin 88,
       meta = \<lparr> meta_rsi = Fin 0, meta_lowerBB = Fin (1041 / 10), meta_upperBB = Fin (241 / 2),
                meta_acceleration = Fin (33333333 / 100000000), meta_atr = Fin 2,
                meta_close = Fin 100 \<rparr> \<rparr>"

definition atr2_signal_v2 :: signal where
  "atr2_signal_v2 = \<lparr> side = LONG, entry = Fin 100, tp = Fin 106, sl = Fin 97, rr = Some (Fin 2) \<rparr>"

text \<open>
  Highs and lows equal to the previous close: every true range is 0, and so is the ATR.
\<close>

definition atr0_candles :: "candle list" where
  "atr0_candles = mk_candles (highs_around 0 falling_closes) (lows_around 0 falling_closes) falling_closes"

definition atr0_signal_v1 :: signal_v1 where
  "atr0_signal_v1 =
     \<lparr> side = LONG, entry = Fin 100, tp = Fin 100, sl = Fin 100, rr = None,
       confidence = Fin 93,
       meta = \<lparr> meta_rsi = Fin 0, meta_lowerBB = Fin (1041 / 10), meta_upperBB = Fin (241 / 2),
                meta_acceleration = Fin (33333333 / 100000000), meta_atr = Fin 0,
                meta_close = Fin 100 \<rparr> \<rparr>"

definition atr0_signal_v2 :: signal where
  "atr0_signal_v2 = \<lparr> side = LONG, entry = Fin 100, tp = Fin 100, sl = Fin 100, rr = Some (Fin 0) \<rparr>"

text \<open>
  The same closes with a high that is NaN in every candle (a field the provider sent
  unreadable), and with a high that is infinite in every candle.
\<close>

definition nan_high_candles :: "candle list" where
  "nan_high_candles = mk_candles (map (\<lambda>c. NaN) falling_closes) (lows_around 1 falling_closes) falling_closes"

definition nan_atr_signal :: signal_v1 where
  "nan_atr_signal =
     \<lparr> side = LONG, entry = Fin 100, tp = NaN, sl = NaN, rr = None,
       confidence = Fin 88,
       meta = \<lparr> meta_rsi = Fin 0, meta_lowerBB = Fin (1041 / 10), meta_upperBB = Fin (241 / 2),
                meta_acceleration = Fin (33333333 / 100000000), meta_atr = Fin 0,
                meta_close = Fin 100 \<rparr> \<rparr>"

definition inf_high_candles :: "candle list" where
  "inf_high_candles = mk_candles (map (\<lambda>c. PInf) falling_closes) (lows_around 1 falling_closes) falling_closes"

definition inf_atr_signal_v1 :: signal_v1 where
  "inf_atr_signal_v1 =
     \<lparr> side = LONG, entry = Fin 100, tp = PInf, sl = NInf, rr = None,
       confidence = Fin 88,
       meta = \<lparr> meta_rsi = Fin 0, meta_lowerBB = Fin (1041 / 10), meta_upperBB = Fin (241 / 2),
                meta_acceleration = Fin (33333333 / 100000000), meta_atr = PInf,
                meta_close = Fin 100 \<rparr> \<rparr>"

definition inf_atr_signal :: signal where
  "inf_atr_signal = \<lparr> side = LONG, entry = Fin 100, tp = PInf, sl = NInf, rr = Some (Fin 0) \<rparr>"


text \<open>The same closes with NaN, an infinite close and NaN at indices 25 to 27.\<close>

definition gap_closes :: "jsnum list" where
  "gap_closes = map Fin [114, 114, 114, 114, 114, 114, 114, 114, 114, 114, 114, 114,
     114, 114, 114, 114, 114, 114, 114, 114, 114, 114, 114, 114, 114]
     @ [NaN, PInf, NaN]
     @ map Fin [114, 114, 114, 114, 114, 114, 114, 114, 112, 109, 101, 100]"

definition gap_candles :: "candle list" where
  "gap_candles = mk_candles (highs_around 1 gap_closes) (lows_around 1 gap_closes) gap_closes"

definition gap_signal :: signal_v1 where
  "gap_signal =
     \<lparr> side = LONG, entry = Fin 100, tp = NaN, sl = NaN, rr = None,
       confidence = Fin 88,
       meta = \<lparr> meta_rsi = Fin 0, meta_lowerBB = PInf, meta_upperBB = PInf,
                meta_acceleration = Fin (33333333 / 100000000), meta_atr = Fin 0,
                meta_close = Fin 100 \<rparr> \<rparr>"

text \<open>The same closes with a first close that is NaN.\<close>

definition nan_first_closes :: "jsnum list" where
  "nan_first_closes = NaN # map Fin [114, 114, 114, 114, 114, 114, 114, 114, 114, 114, 114, 114,
     114, 114, 114, 114, 114, 114, 114, 114, 114, 114, 114, 114, 114, 114, 114, 114, 114,
     114, 114, 114, 114, 114, 114, 112, 109, 101, 100]"

definition nan_first_candles :: "candle list" where
  "nan_first_candles =
     mk_candles (highs_around 1 nan_first_closes) (lows_around 1 nan_first_closes) nan_first_closes"

text \<open>The same shape a thousand times smaller and ending at a close of 0.\<close>

definition small_closes :: "jsnum list" where
  "small_closes = map (\<lambda>x. Fin (x / 1000)) [14, 14, 14, 14, 14, 14, 14, 14, 14, 14, 14, 14,
     14, 14, 14, 14, 14, 14, 14, 14, 14, 14, 14, 14, 14, 14, 14, 14, 14,
     14, 14, 14, 14, 14, 14, 14, 12, 9, 1, 0]"

definition small_candles :: "candle list" where
  "small_candles =
     mk_candles (highs_around (1 / 1000) small_closes) (lows_around (1 / 1000) small_closes) small_closes"

definition small_signal :: signal_v1 where
  "small_signal =
     \<lparr> side = LONG, entry = Fin 0, tp = Fin (3 / 500), sl = Fin (- (3 / 1000)), rr = Some (Fin 2),
       confidence = Fin 90,
       meta = \<lparr> meta_rsi = Fin 0, meta_lowerBB = Fin (41 / 10000), meta_upperBB = Fin (41 / 2000),
                meta_acceleration = Fin (33333 / 100000000), meta_atr = Fin (1 / 500),
                meta_close = Fin 0 \<rparr> \<rparr>"

text \<open>
  \<open>fill_nulls\<close> is unfolded by hand: its equation rewrites its own right-hand side.
\<close>

declare fill_nulls.simps [simp del]

section \<open>The RSI at a zero average loss\<close>

lemma length_deltas: "length (deltas xs) = length xs - 1"
  by (induction xs rule: deltas.induct) auto

lemma length_wilder_run: "length (wilder_run period gl ds) = length ds"
  by (induction ds arbitrary: gl) (auto simp: Let_def)

lemma length_rsi_averages_v1:
  "length (rsi_averages_v1 prices period) = Suc (length prices - 1 - period)"
  by (simp add: rsi_averages_v1_def Let_def length_wilder_run length_deltas)

lemma length_rsi_averages_v2:
  "length (rsi_averages_v2 prices period) = Suc (length prices - 1 - period)"
  by (simp add: rsi_averages_v2_def Let_def length_wilder_run length_deltas)

lemma computeRSI_nth:
  assumes "period + 1 \<le> length prices" and "k < length (rsi_averages_v1 prices period)"
  shows "computeRSI prices period ! (period + k) =
         Some (rsi_value_v1 (fst (rsi_averages_v1 prices period ! k))
                            (snd (rsi_averages_v1 prices period ! k)))"
  using assms by (simp add: computeRSI_def nth_append)

lemma rsiFromArray_nth:
  assumes "period \<le> length (deltas closes)" and "k < length (rsi_averages_v2 closes period)"
  shows "rsiFromArray closes period ! (period + k) =
         Some (rsi_value_v2 (fst (rsi_averages_v2 closes period ! k))
                            (snd (rsi_averages_v2 closes period ! k)))"
  using assms by (simp add: rsiFromArray_def nth_append)

lemma rsi_value_v1_zero_loss: "rsi_value_v1 g (Fin 0) = Fin (10000 / 101)"
  by (simp add: rsi_value_v1_def js_eq_def js_sub_def)

lemma rsi_value_v2_zero_loss: "rsi_value_v2 g (Fin 0) = Fin 100"
  by (simp add: rsi_value_v2_def js_eq_def)

lemma computeRSI_zero_loss_general:
  assumes "period + 1 \<le> length prices" and "k < length (rsi_averages_v1 prices period)"
    and "snd (rsi_averages_v1 prices period ! k) = Fin 0"
  shows "computeRSI prices period ! (period + k) = Some (Fin (10000 / 101))"
  using assms by (simp add: computeRSI_nth rsi_value_v1_zero_loss)

lemma rsiFromArray_zero_loss:
  assumes "period \<le> length (deltas closes)" and "k < length (rsi_averages_v2 closes period)"
    and "snd (rsi_averages_v2 closes period ! k) = Fin 0"
  shows "rsiFromArray closes period ! (period + k) = Some (Fin 100)"
  using assms by (simp add: rsiFromArray_nth rsi_value_v2_zero_loss)

text \<open>
  Claim C1: whenever the running average loss is exactly zero, the RSI written at that
  index is exactly 100. \<open>rsiFromArray\<close> does so (lemma \<open>rsiFromArray_zero_loss\<close>), but
  \<open>computeRSI\<close> sets the ratio \<open>rs\<close> to 100 instead and writes \<open>100 - 100 / 101\<close>
  (lemma \<open>computeRSI_zero_loss_general\<close>). On fifteen rising closes the average loss of
  the seed is zero, \<open>computeRSI\<close> writes \<open>10000 / 101\<close> at index 14 and \<open>rsiFromArray\<close>
  writes 100.
\<close>

theorem computeRSI_saturates_below_100:
  "snd (rsi_averages_v1 rising_closes 14 ! 0) = Fin 0
   \<and> computeRSI rising_closes 14 ! 14 = Some (Fin (10000 / 101))
   \<and> computeRSI rising_closes 14 ! 14 \<noteq> Some (Fin 100)
   \<and> rsiFromArray rising_closes 14 ! 14 = Some (Fin 100)"
  by (simp add: rising_closes_def computeRSI_def rsiFromArray_def rsi_averages_v1_def rsi_averages_v2_def
      seed_step_v1_def seed_step_v2_def rsi_value_v1_def rsi_value_v2_def
      js_sub_def js_ge_def js_gt_def js_eq_def Let_def nth_append)

section \<open>Rolling windows\<close>

lemma length_sma_v1: "length (sma_v1 arr p) = length arr"
  by (simp add: sma_v1_def)

lemma length_rollingStd: "length (rollingStd arr p) = length arr"
  by (simp add: rollingStd_def)

lemma sma_v1_nth: "i < length arr \<Longrightarrow> sma_v1 arr p ! i = sma_at_v1 arr p i"
  by (simp add: sma_v1_def)







section \<open>The fallback chain\<close>







section \<open>Chronological order\<close>

text \<open>The comparison of the code is strict, and \<open><=\<close> is its converse where both hold.\<close>

lemma js_lt_asym: "js_lt a b \<Longrightarrow> \<not> js_lt b a"
  by (cases a; cases b) auto

lemma str_lt_asym: "str_lt a b \<Longrightarrow> \<not> str_lt b a"
  by (induction a b rule: str_lt.induct) auto


lemma stamp_lt_asym: "stamp_lt a b \<Longrightarrow> \<not> stamp_lt b a"
  by (cases a; cases b) (auto dest: js_lt_asym str_lt_asym)

lemma stamp_gt_imp_le: "stamp_gt b a \<Longrightarrow> stamp_le a b"
  by (cases a; cases b) (auto simp: stamp_gt_def js_ge_def dest: str_lt_asym)


lemma stamp_gt_irrefl: "\<not> stamp_gt a a"
  using stamp_lt_asym [of a a] by (auto simp: stamp_gt_def)









lemma stamp_gt_numbers: "stamp_gt (TNum a) (TNum b) = js_lt b a"
  by (simp add: stamp_gt_def)







lemma accepted_length: "accepted attempts = Some payload \<Longrightarrow> 30 \<le> length payload"
  by (induction attempts rule: accepted.induct) (auto split: if_splits)









section \<open>The ATR from index \<open>period\<close> on\<close>

lemma length_fill_nulls: "length (fill_nulls i atrs) = length atrs"
proof (induction i atrs rule: fill_nulls.induct)
  case (1 i atrs)
  show ?case
  proof (cases "i < length atrs")
    case True
    then show ?thesis
      using "1.IH" by (subst fill_nulls.simps) (simp split: if_splits)
  next
    case False
    then show ?thesis by (subst fill_nulls.simps) simp
  qed
qed

lemma fill_nulls_keeps:
  "k < length atrs \<Longrightarrow> atrs ! k = Some v \<Longrightarrow> fill_nulls i atrs ! k = Some v"
proof (induction i atrs rule: fill_nulls.induct)
  case (1 i atrs)
  show ?case
  proof (cases "i < length atrs")
    case True
    show ?thesis
    proof (cases "atrs ! i = None")
      case n: True
      then have "k \<noteq> i" using "1.prems" by auto
      then show ?thesis
        using True n "1.IH" "1.prems" by (subst fill_nulls.simps) simp
    next
      case False
      then show ?thesis
        using True "1.IH" "1.prems" by (subst fill_nulls.simps) auto
    qed
  next
    case False
    then show ?thesis using "1.prems" by (subst fill_nulls.simps) simp
  qed
qed

lemma length_atr_run: "length (atr_run period prev trs) = length trs"
  by (induction trs arbitrary: prev) (auto simp: Let_def)

lemma length_true_ranges: "length (true_ranges highs lows closes) = length closes - 1"
  by (simp add: true_ranges_def)

lemma computeATR_nth:
  assumes "period \<le> length closes - 1" and "period \<le> k" and "k < length closes"
  shows "computeATR highs lows closes period ! k
         = Some (atr_values (true_ranges highs lows closes) period ! (k - period))"
proof -
  let ?trs = "true_ranges highs lows closes"
  let ?init = "js_div (js_sum (take period ?trs)) (Fin (real period))"
  let ?raw = "replicate period None @ Some ?init # map Some (atr_run period ?init (drop period ?trs))"
  have l: "length ?raw = length closes"
    using assms by (simp add: length_atr_run length_true_ranges)
  have "?raw ! k = Some (atr_values ?trs period ! (k - period))"
    using assms
    by (cases "k - period")
       (auto simp: nth_append atr_values_def Let_def length_atr_run length_true_ranges)
  then have "fill_nulls 0 ?raw ! k = Some (atr_values ?trs period ! (k - period))"
    using l assms(3) by (intro fill_nulls_keeps) simp_all
  then show ?thesis
    using assms(1) by (simp add: computeATR_def Let_def length_true_ranges)
qed

lemma atrFromCandles_nth:
  assumes "period \<le> length closes - 1" and "period \<le> k" and "k < length closes"
  shows "atrFromCandles highs lows closes period ! k
         = Some (atr_values (true_ranges highs lows closes) period ! (k - period))"
  using assms
  by (cases "k - period")
     (auto simp: atrFromCandles_def nth_append atr_values_def Let_def length_atr_run length_true_ranges)

section \<open>Evaluating the concrete series\<close>

lemma upt40: "[0..<40] = [0,1,2,3,4,5,6,7,8,9,10,11,12,13,14,15,16,17,18,19,20,21,22,23,24,25,26,27,28,29,
   30,31,32,33,34,35,36,37,38,39]"
  by (simp add: upt_rec)

lemma upt1_40: "[1..<40] = [1,2,3,4,5,6,7,8,9,10,11,12,13,14,15,16,17,18,19,20,21,22,23,24,25,26,27,28,29,
   30,31,32,33,34,35,36,37,38,39]"
  by (simp add: upt_rec)

lemma len_fc: "length falling_closes = 40" by (simp add: falling_closes_def)

lemma map_close_mk: "map close (mk_candles highs lows closes) = closes"
  by (auto simp: mk_candles_def intro: nth_equalityI)

lemma map_high_mk: "length highs = length closes \<Longrightarrow> map high (mk_candles highs lows closes) = highs"
  by (auto simp: mk_candles_def intro: nth_equalityI)

lemma map_low_mk: "length lows = length closes \<Longrightarrow> map low (mk_candles highs lows closes) = lows"
  by (auto simp: mk_candles_def intro: nth_equalityI)

lemma tr2: "true_ranges (highs_around 1 falling_closes) (lows_around 1 falling_closes) falling_closes
   = [Fin 2, Fin 2, Fin 2, Fin 2, Fin 2, Fin 2, Fin 2, Fin 2, Fin 2, Fin 2,
      Fin 2, Fin 2, Fin 2, Fin 2, Fin 2, Fin 2, Fin 2, Fin 2, Fin 2, Fin 2,
      Fin 2, Fin 2, Fin 2, Fin 2, Fin 2, Fin 2, Fin 2, Fin 2, Fin 2, Fin 2,
      Fin 2, Fin 2, Fin 2, Fin 2, Fin 2, Fin 2, Fin 2, Fin 2, Fin 2]"
  by (simp add: true_ranges_def len_fc upt1_40 true_range_def num_at_def highs_around_def lows_around_def
     upt40 falling_closes_def js_sub_def js_max_def)

lemma atr2: "computeATR (highs_around 1 falling_closes) (lows_around 1 falling_closes) falling_closes 14 ! 39
   = Some (Fin 2)"
proof -
  have "computeATR (highs_around 1 falling_closes) (lows_around 1 falling_closes) falling_closes 14 ! 39
    = Some (atr_values (true_ranges (highs_around 1 falling_closes) (lows_around 1 falling_closes) falling_closes) 14 ! (39 - 14))"
    by (rule computeATR_nth) (simp_all add: len_fc)
  also have "\<dots> = Some (Fin 2)"
    unfolding tr2
    by (simp add: atr_values_def js_sum_def Let_def)
  finally show ?thesis .
qed

section \<open>What a signal says about the last index\<close>

lemma analyzeCandles_v1_last:
  "analyzeCandles_v1 candles =
     (if length candles < 40 then None
      else case (lastRsi_v1 candles, lastAtr_v1 candles) of
             (Some r, Some q) \<Rightarrow>
                decide_v1 (lastClose candles) r (lastLowerBB_v1 candles) (lastUpperBB_v1 candles)
                  (lastA_v1 candles) q
           | _ \<Rightarrow> None)"
  by (simp add: analyzeCandles_v1_def Let_def lastClose_def lastRsi_v1_def lastLowerBB_v1_def
      lastUpperBB_v1_def lastA_v1_def lastAtr_v1_def split: option.splits)

lemma analyzeCandles_v2_last:
  "analyzeCandles_v2 candles =
     (if length candles < 40 then None
      else if missing (lastRsi_v2 candles) \<or> missing (lastLower_v2 candles)
              \<or> missing (lastUpper_v2 candles) \<or> missing (lastA_v2 candles)
              \<or> missing (lastAtr_v2 candles)
           then None
           else decide_v2 (lastClose candles) (num_of (lastRsi_v2 candles))
                  (num_of (lastLower_v2 candles)) (num_of (lastUpper_v2 candles))
                  (num_of (lastA_v2 candles)) (num_of (lastAtr_v2 candles)))"
  by (simp add: analyzeCandles_v2_def Let_def lastClose_def lastRsi_v2_def lastLower_v2_def
      lastUpper_v2_def lastA_v2_def lastAtr_v2_def)

text \<open>What a signal of \<open>decide_v1\<close> and \<open>decide_v2\<close> says about the values it was made from.\<close>

lemma decide_v1_Some:
  assumes "decide_v1 c r lo up a q = Some s"
  shows "entry s = c"
    and "sl s = fst (levels (side s) c q)"
    and "tp s = snd (levels (side s) c q)"
    and "rr s = map_option (toFixed 2) (riskReward c (sl s) (tp s))"
    and "confidence s = confidence_v1 (side s) r a c q"
    and "side s = LONG \<Longrightarrow> js_lt r (Fin 30) \<and> js_lt c lo \<and> js_gt a (Fin 0)"
    and "side s = SHORT \<Longrightarrow> js_gt r (Fin 70) \<and> js_gt c up \<and> js_lt a (Fin 0)"
  using assms
  by (auto simp: decide_v1_def Let_def map_option_case split: if_splits option.splits)

lemma decide_v2_Some:
  assumes "decide_v2 c r lo up a q = Some s"
  shows "entry s = c"
    and "sl s = fst (levels (side s) c q)"
    and "tp s = snd (levels (side s) c q)"
    and "rr s = Some (num_of (riskReward c (sl s) (tp s)))"
    and "side s = LONG \<Longrightarrow> js_lt r (Fin 30) \<and> js_lt c lo \<and> js_gt a (Fin 0)"
    and "side s = SHORT \<Longrightarrow> js_gt r (Fin 70) \<and> js_gt c up \<and> js_lt a (Fin 0)"
  using assms
  by (auto simp: decide_v2_def Let_def split: if_splits option.splits)

lemma analyzeCandles_v1_Some:
  assumes "analyzeCandles_v1 candles = Some s"
  obtains r q where "40 \<le> length candles" and "lastRsi_v1 candles = Some r"
    and "lastAtr_v1 candles = Some q"
    and "decide_v1 (lastClose candles) r (lastLowerBB_v1 candles) (lastUpperBB_v1 candles)
           (lastA_v1 candles) q = Some s"
  using assms unfolding analyzeCandles_v1_last
  by (auto split: if_splits option.splits)

lemma analyzeCandles_v2_Some:
  assumes "analyzeCandles_v2 candles = Some s"
  obtains r lo up a q where "40 \<le> length candles" and "lastRsi_v2 candles = Some r"
    and "lastLower_v2 candles = Some lo" and "lastUpper_v2 candles = Some up"
    and "lastA_v2 candles = Some a" and "lastAtr_v2 candles = Some q"
    and "r \<noteq> NaN" and "lo \<noteq> NaN" and "up \<noteq> NaN" and "a \<noteq> NaN" and "q \<noteq> NaN"
    and "decide_v2 (lastClose candles) r lo up a q = Some s"
proof -
  from assms have l: "40 \<le> length candles"
    and m: "\<not> missing (lastRsi_v2 candles)" "\<not> missing (lastLower_v2 candles)"
      "\<not> missing (lastUpper_v2 candles)" "\<not> missing (lastA_v2 candles)"
      "\<not> missing (lastAtr_v2 candles)"
    and d: "decide_v2 (lastClose candles) (num_of (lastRsi_v2 candles))
                  (num_of (lastLower_v2 candles)) (num_of (lastUpper_v2 candles))
                  (num_of (lastA_v2 candles)) (num_of (lastAtr_v2 candles)) = Some s"
    unfolding analyzeCandles_v2_last by (auto split: if_splits)
  from m obtain r lo up a q where
    "lastRsi_v2 candles = Some r" "lastLower_v2 candles = Some lo" "lastUpper_v2 candles = Some up"
    "lastA_v2 candles = Some a" "lastAtr_v2 candles = Some q"
    "r \<noteq> NaN" "lo \<noteq> NaN" "up \<noteq> NaN" "a \<noteq> NaN" "q \<noteq> NaN"
    by (auto simp: missing_def)
  with l d that show ?thesis by (simp add: num_of_def)
qed

lemma side_cases: "sd = LONG \<or> sd = SHORT"
  by (cases sd) auto

lemma levels_LONG:
  "levels LONG c q = (js_sub c (js_mul (Fin (3 / 2)) q), js_add c (js_mul (Fin 3) q))"
  by (simp add: levels_def)

lemma levels_SHORT:
  "levels SHORT c q = (js_add c (js_mul (Fin (3 / 2)) q), js_sub c (js_mul (Fin 3) q))"
  by (simp add: levels_def)

lemma riskReward_two:
  assumes "q \<noteq> 0"
  shows "riskReward (Fin e) (fst (levels sd (Fin e) (Fin q))) (snd (levels sd (Fin e) (Fin q)))
         = Some (Fin 2)"
proof -
  have "\<bar>3 * q\<bar> / \<bar>3 * q / 2\<bar> = 2"
    using assms by (simp add: abs_mult)
  then show ?thesis
    using assms by (cases sd) (simp_all add: levels_def riskReward_def js_sub_def Let_def abs_mult)
qed

lemma toFixed_two: "toFixed 2 (Fin 2) = Fin 2"
  by simp

section \<open>The entry of a signal is finite\<close>

lemma js_lt_never [simp]:
  "\<not> js_lt PInf x" "\<not> js_lt x NInf" "\<not> js_lt x NaN" "\<not> js_lt NaN x"
  by (cases x; simp)+

text \<open>An infinite value in a window decides its sum.\<close>

lemma js_add_NInf_left: "js_add NInf y = NInf \<or> js_add NInf y = NaN"
  by (cases y) auto

lemma js_add_NInf_right: "js_add x NInf = NInf \<or> js_add x NInf = NaN"
  by (cases x) auto

lemma js_add_PInf_left: "js_add PInf y = PInf \<or> js_add PInf y = NaN"
  by (cases y) auto

lemma js_add_PInf_right: "js_add x PInf = PInf \<or> js_add x PInf = NaN"
  by (cases x) auto

lemma foldl_stays_NInf:
  assumes "\<And>b. f NInf b = NInf \<or> f NInf b = NaN" and "\<And>b. f NaN b = NaN"
    and "acc = NInf \<or> acc = NaN"
  shows "foldl f acc win = NInf \<or> foldl f acc win = NaN"
  using assms(3)
proof (induction win arbitrary: acc)
  case Nil
  then show ?case by simp
next
  case (Cons x xs)
  have "f acc x = NInf \<or> f acc x = NaN"
    using Cons.prems assms(1) [of x] assms(2) [of x] by auto
  then show ?case using Cons.IH by simp
qed

lemma foldl_stays_PInf:
  assumes "\<And>b. f PInf b = PInf \<or> f PInf b = NaN" and "\<And>b. f NaN b = NaN"
    and "acc = PInf \<or> acc = NaN"
  shows "foldl f acc win = PInf \<or> foldl f acc win = NaN"
  using assms(3)
proof (induction win arbitrary: acc)
  case Nil
  then show ?case by simp
next
  case (Cons x xs)
  have "f acc x = PInf \<or> f acc x = NaN"
    using Cons.prems assms(1) [of x] assms(2) [of x] by auto
  then show ?case using Cons.IH by simp
qed

lemma foldl_meets_NInf:
  assumes "\<And>b. f NInf b = NInf \<or> f NInf b = NaN" and "\<And>b. f NaN b = NaN"
    and "\<And>a. f a NInf = NInf \<or> f a NInf = NaN"
    and "NInf \<in> set win"
  shows "foldl f acc win = NInf \<or> foldl f acc win = NaN"
  using assms(4)
proof (induction win arbitrary: acc)
  case Nil
  then show ?case by simp
next
  case (Cons x xs)
  show ?case
  proof (cases "x = NInf")
    case True
    then have "f acc x = NInf \<or> f acc x = NaN" using assms(3) by simp
    then show ?thesis
      using foldl_stays_NInf [of f "f acc x" xs] assms(1,2) by simp
  next
    case False
    then show ?thesis using Cons by simp
  qed
qed

lemma foldl_meets_PInf:
  assumes "\<And>b. f PInf b = PInf \<or> f PInf b = NaN" and "\<And>b. f NaN b = NaN"
    and "\<And>a. f a PInf = PInf \<or> f a PInf = NaN"
    and "PInf \<in> set win"
  shows "foldl f acc win = PInf \<or> foldl f acc win = NaN"
  using assms(4)
proof (induction win arbitrary: acc)
  case Nil
  then show ?case by simp
next
  case (Cons x xs)
  show ?case
  proof (cases "x = PInf")
    case True
    then have "f acc x = PInf \<or> f acc x = NaN" using assms(3) by simp
    then show ?thesis
      using foldl_stays_PInf [of f "f acc x" xs] assms(1,2) by simp
  next
    case False
    then show ?thesis using Cons by simp
  qed
qed

lemma sum_or_zero_NInf:
  "NInf \<in> set win \<Longrightarrow>
   foldl (\<lambda>a b. js_add a (js_or b (Fin 0))) (Fin 0) win \<in> {NInf, NaN}"
  using foldl_meets_NInf [of "\<lambda>a b. js_add a (js_or b (Fin 0))" win "Fin 0"]
    js_add_NInf_left js_add_NInf_right
  by (simp add: js_or_def)

lemma sum_or_zero_PInf:
  "PInf \<in> set win \<Longrightarrow>
   foldl (\<lambda>a b. js_add a (js_or b (Fin 0))) (Fin 0) win \<in> {PInf, NaN}"
  using foldl_meets_PInf [of "\<lambda>a b. js_add a (js_or b (Fin 0))" win "Fin 0"]
    js_add_PInf_left js_add_PInf_right
  by (simp add: js_or_def)

lemma js_sum_NInf: "NInf \<in> set win \<Longrightarrow> js_sum win \<in> {NInf, NaN}"
  unfolding js_sum_def
  using foldl_meets_NInf [of js_add win "Fin 0"] js_add_NInf_left js_add_NInf_right
  by simp

lemma js_sum_PInf: "PInf \<in> set win \<Longrightarrow> js_sum win \<in> {PInf, NaN}"
  unfolding js_sum_def
  using foldl_meets_PInf [of js_add win "Fin 0"] js_add_PInf_left js_add_PInf_right
  by simp

text \<open>The window that ends at the last index holds the last value.\<close>

lemma last_in_window_v1:
  assumes "arr \<noteq> []" and "0 < period"
  shows "arr ! (length arr - 1) \<in> set (window_v1 arr period (length arr - 1))"
proof -
  have "window_v1 arr period (length arr - 1) = drop (length arr - period) arr"
    using assms by (simp add: window_v1_def)
  moreover have "length arr - period < length arr" using assms by auto
  ultimately show ?thesis
    using assms(1) by (metis last_conv_nth last_drop last_in_set drop_eq_Nil not_le)
qed

lemma window_v2_eq_v1: "window_v2 arr len i = window_v1 arr len i"
  by (simp add: window_v2_def window_v1_def)

text \<open>The bands at the last index, spelled out.\<close>

lemma lowerBB_v1_nth:
  "i < length closes \<Longrightarrow>
   lowerBB_v1 closes ! i
     = js_sub (sma_at_v1 closes 20 i) (js_mul (Fin 2) (js_or (rollingStd_at closes 20 i) (Fin 0)))"
  by (simp add: lowerBB_v1_def sma_v1_def rollingStd_def)

lemma upperBB_v1_nth:
  "i < length closes \<Longrightarrow>
   upperBB_v1 closes ! i
     = js_add (sma_at_v1 closes 20 i) (js_mul (Fin 2) (js_or (rollingStd_at closes 20 i) (Fin 0)))"
  by (simp add: upperBB_v1_def sma_v1_def rollingStd_def)

lemma bbLower_nth:
  "i < length closes \<Longrightarrow> 19 \<le> i \<Longrightarrow>
   bbLower closes ! i
     = Some (js_sub (js_div (js_sum (window_v2 closes 20 i)) (Fin 20))
               (js_mul (Fin 2)
                  (js_sqrt (js_div (sq_dev_sum (js_div (js_sum (window_v2 closes 20 i)) (Fin 20))
                                               (window_v2 closes 20 i)) (Fin 20)))))"
  by (simp add: bbLower_def sma_v2_def stddev_def Let_def num_of_def)

lemma bbUpper_nth:
  "i < length closes \<Longrightarrow> 19 \<le> i \<Longrightarrow>
   bbUpper closes ! i
     = Some (js_add (js_div (js_sum (window_v2 closes 20 i)) (Fin 20))
               (js_mul (Fin 2)
                  (js_sqrt (js_div (sq_dev_sum (js_div (js_sum (window_v2 closes 20 i)) (Fin 20))
                                               (window_v2 closes 20 i)) (Fin 20)))))"
  by (simp add: bbUpper_def sma_v2_def stddev_def Let_def num_of_def)

text \<open>A spread is never negative infinity.\<close>

lemma js_sqrt_range: "js_sqrt v = NaN \<or> js_sqrt v = PInf \<or> (\<exists>x. js_sqrt v = Fin x)"
  by (cases v) auto

lemma below_NInf_band:
  assumes "m = NInf \<or> m = NaN" and "s \<noteq> NInf"
  shows "\<not> js_lt c (js_sub m (js_mul (Fin 2) s))"
  using assms by (cases s; cases c) (auto simp: js_sub_def)

lemma above_PInf_band:
  assumes "m = PInf \<or> m = NaN" and "s \<noteq> NInf"
  shows "\<not> js_gt c (js_add m (js_mul (Fin 2) s))"
  using assms by (cases s; cases c) (auto simp: js_gt_def)

lemma js_div_pos_inf:
  assumes "0 \<le> n"
  shows "m \<in> {NInf, NaN} \<Longrightarrow> js_div m (Fin n) \<in> {NInf, NaN}"
    and "m \<in> {PInf, NaN} \<Longrightarrow> js_div m (Fin n) \<in> {PInf, NaN}"
  using assms by auto

lemma js_or_sqrt_not_NInf: "js_or (js_sqrt v) (Fin 0) \<noteq> NInf"
  using js_sqrt_range [of v] by (auto simp: js_or_def)

lemma js_sqrt_not_NInf: "js_sqrt v \<noteq> NInf"
  using js_sqrt_range [of v] by auto

lemma long_close_finite_v1:
  assumes "candles \<noteq> []" and "js_lt (lastClose candles) (lastLowerBB_v1 candles)"
  shows "\<exists>e. lastClose candles = Fin e"
proof (cases "lastClose candles")
  case NInf
  let ?closes = "map close candles"
  let ?i = "length candles - 1"
  have i: "?i < length ?closes" using assms(1) by simp
  have "NInf \<in> set (window_v1 ?closes 20 ?i)"
    using last_in_window_v1 [of ?closes 20] assms(1) NInf by (simp add: lastClose_def)
  then have "sma_at_v1 ?closes 20 ?i \<in> {NInf, NaN}"
    unfolding sma_at_v1_def Let_def
    by (intro js_div_pos_inf(1) sum_or_zero_NInf) simp_all
  then have "\<not> js_lt (lastClose candles) (lowerBB_v1 ?closes ! ?i)"
    unfolding lowerBB_v1_nth [OF i] rollingStd_at_def Let_def
    by (intro below_NInf_band js_or_sqrt_not_NInf) simp
  then show ?thesis using assms(2) by (simp add: lastLowerBB_v1_def)
qed (use assms(2) in auto)

lemma short_close_finite_v1:
  assumes "candles \<noteq> []" and "js_gt (lastClose candles) (lastUpperBB_v1 candles)"
  shows "\<exists>e. lastClose candles = Fin e"
proof (cases "lastClose candles")
  case PInf
  let ?closes = "map close candles"
  let ?i = "length candles - 1"
  have i: "?i < length ?closes" using assms(1) by simp
  have "PInf \<in> set (window_v1 ?closes 20 ?i)"
    using last_in_window_v1 [of ?closes 20] assms(1) PInf by (simp add: lastClose_def)
  then have "sma_at_v1 ?closes 20 ?i \<in> {PInf, NaN}"
    unfolding sma_at_v1_def Let_def
    by (intro js_div_pos_inf(2) sum_or_zero_PInf) simp_all
  then have "\<not> js_gt (lastClose candles) (upperBB_v1 ?closes ! ?i)"
    unfolding upperBB_v1_nth [OF i] rollingStd_at_def Let_def
    by (intro above_PInf_band js_or_sqrt_not_NInf) simp
  then show ?thesis using assms(2) by (simp add: lastUpperBB_v1_def)
next
  case NInf
  then show ?thesis using assms(2) by (cases "lastUpperBB_v1 candles") (auto simp: js_gt_def)
qed (use assms(2) in \<open>auto simp: js_gt_def\<close>)

lemma long_close_finite_v2:
  assumes "40 \<le> length candles" and "lastLower_v2 candles = Some lo"
    and "js_lt (lastClose candles) lo"
  shows "\<exists>e. lastClose candles = Fin e"
proof (cases "lastClose candles")
  case NInf
  let ?closes = "map close candles"
  let ?i = "length candles - 1"
  have ne: "candles \<noteq> []" using assms(1) by auto
  have i: "?i < length ?closes" "19 \<le> ?i" using assms(1) by simp_all
  have "NInf \<in> set (window_v2 ?closes 20 ?i)"
    using last_in_window_v1 [of ?closes 20] ne NInf by (simp add: lastClose_def window_v2_eq_v1)
  then have "js_div (js_sum (window_v2 ?closes 20 ?i)) (Fin 20) \<in> {NInf, NaN}"
    by (intro js_div_pos_inf(1) js_sum_NInf) simp_all
  then have "\<not> js_lt (lastClose candles) (num_of (bbLower ?closes ! ?i))"
    unfolding bbLower_nth [OF i] num_of_def option.case
    by (intro below_NInf_band js_sqrt_not_NInf) simp
  then show ?thesis using assms(2,3) by (simp add: lastLower_v2_def num_of_def)
qed (use assms(3) in auto)

lemma short_close_finite_v2:
  assumes "40 \<le> length candles" and "lastUpper_v2 candles = Some up"
    and "js_gt (lastClose candles) up"
  shows "\<exists>e. lastClose candles = Fin e"
proof (cases "lastClose candles")
  case PInf
  let ?closes = "map close candles"
  let ?i = "length candles - 1"
  have ne: "candles \<noteq> []" using assms(1) by auto
  have i: "?i < length ?closes" "19 \<le> ?i" using assms(1) by simp_all
  have "PInf \<in> set (window_v2 ?closes 20 ?i)"
    using last_in_window_v1 [of ?closes 20] ne PInf by (simp add: lastClose_def window_v2_eq_v1)
  then have "js_div (js_sum (window_v2 ?closes 20 ?i)) (Fin 20) \<in> {PInf, NaN}"
    by (intro js_div_pos_inf(2) js_sum_PInf) simp_all
  then have "\<not> js_gt (lastClose candles) (num_of (bbUpper ?closes ! ?i))"
    unfolding bbUpper_nth [OF i] num_of_def option.case
    by (intro above_PInf_band js_sqrt_not_NInf) simp
  then show ?thesis using assms(2,3) by (simp add: lastUpper_v2_def num_of_def)
next
  case NInf
  then show ?thesis using assms(3) by (cases up) (auto simp: js_gt_def)
qed (use assms(3) in \<open>auto simp: js_gt_def\<close>)

lemma signal_entry_finite_v1:
  assumes "analyzeCandles_v1 candles = Some s"
  shows "\<exists>e. entry s = Fin e"
proof -
  from assms obtain r q where l: "40 \<le> length candles"
    and d: "decide_v1 (lastClose candles) r (lastLowerBB_v1 candles) (lastUpperBB_v1 candles)
           (lastA_v1 candles) q = Some s"
    by (rule analyzeCandles_v1_Some)
  have ne: "candles \<noteq> []" using l by auto
  show ?thesis
    using side_cases [of "side s"] decide_v1_Some(1,6,7) [OF d]
      long_close_finite_v1 [OF ne] short_close_finite_v1 [OF ne] by auto
qed

lemma signal_entry_finite_v2:
  assumes "analyzeCandles_v2 candles = Some s"
  shows "\<exists>e. entry s = Fin e"
proof -
  from assms obtain r lo up a q where l: "40 \<le> length candles"
    and b: "lastLower_v2 candles = Some lo" "lastUpper_v2 candles = Some up"
    and d: "decide_v2 (lastClose candles) r lo up a q = Some s"
    by (rule analyzeCandles_v2_Some)
  show ?thesis
    using side_cases [of "side s"] decide_v2_Some(1,5,6) [OF d]
      long_close_finite_v2 [OF l b(1)] short_close_finite_v2 [OF l b(2)] by auto
qed

section \<open>The indicators of the concrete series\<close>

lemma rsi_v1_fc: "computeRSI falling_closes 14 ! 39 = Some (Fin 0)"
  by (simp add: falling_closes_def computeRSI_def rsi_averages_v1_def seed_step_v1_def wilder_step_def
      rsi_value_v1_def js_sub_def js_ge_def js_eq_def js_gt_def Let_def nth_append)

lemma rsi_v2_fc: "rsiFromArray falling_closes 14 ! 39 = Some (Fin 0)"
  by (simp add: falling_closes_def rsiFromArray_def rsi_averages_v2_def seed_step_v2_def wilder_step_def
      rsi_value_v2_def js_sub_def js_ge_def js_eq_def js_gt_def Let_def nth_append)

lemma win_fc: "window_v1 falling_closes 20 39 = map Fin [114, 114, 114, 114, 114, 114, 114, 114, 114,
     114, 114, 114, 114, 114, 114, 114, 112, 109, 101, 100]"
  by (simp add: window_v1_def falling_closes_def)

lemma sma_fc: "sma_at_v1 falling_closes 20 39 = Fin (1123 / 10)"
  by (simp add: sma_at_v1_def win_fc js_or_def)

lemma sqrt_1681: "sqrt (1681 / 100) = 41 / 10"
  by (rule real_sqrt_unique) (simp_all add: power2_eq_square)

lemma std_fc: "rollingStd_at falling_closes 20 39 = Fin (41 / 10)"
  by (simp add: rollingStd_at_def win_fc js_sum_def sq_dev_sum_def js_sub_def sqrt_1681)

lemma lower_v1_fc: "lowerBB_v1 falling_closes ! 39 = Fin (1041 / 10)"
  by (simp add: lowerBB_v1_nth len_fc sma_fc std_fc js_or_def js_sub_def)

lemma upper_v1_fc: "upperBB_v1 falling_closes ! 39 = Fin (241 / 2)"
  by (simp add: upperBB_v1_nth len_fc sma_fc std_fc js_or_def)

lemma pc_fc: "priceChanges falling_closes = map Fin [0, 0, 0, 0, 0, 0, 0, 0, 0, 0, 0, 0, 0, 0, 0, 0, 0,
   0, 0, 0, 0, 0, 0, 0, 0, 0, 0, 0, 0, 0, 0, 0, 0, 0, 0, 0, -2, -3, -8, -1]"
  by (simp add: priceChanges_def len_fc upt40) (simp add: falling_closes_def js_sub_def)

lemma acc_v1_fc: "acceleration_v1 falling_closes ! 39 = Fin (1 / 3)"
  by (simp add: acceleration_v1_def Let_def length_sma_v1 sma_v1_nth pc_fc sma_at_v1_def window_v1_def
      js_or_def js_sub_def)

lemma length_mk_candles: "length (mk_candles highs lows closes) = length closes"
  by (simp add: mk_candles_def)

lemma length_around: "length (highs_around d closes) = length closes"
  "length (lows_around d closes) = length closes"
  by (simp_all add: highs_around_def lows_around_def)

lemma lower_v2_fc: "bbLower falling_closes ! 39 = Some (Fin (1041 / 10))"
  by (simp add: bbLower_nth len_fc window_v2_eq_v1 win_fc js_sum_def sq_dev_sum_def js_sub_def sqrt_1681)

lemma upper_v2_fc: "bbUpper falling_closes ! 39 = Some (Fin (241 / 2))"
  by (simp add: bbUpper_nth len_fc window_v2_eq_v1 win_fc js_sum_def sq_dev_sum_def js_sub_def sqrt_1681)

lemma deltas_fc: "deltas falling_closes = map Fin [0, 0, 0, 0, 0, 0, 0, 0, 0, 0, 0, 0, 0, 0, 0, 0, 0,
   0, 0, 0, 0, 0, 0, 0, 0, 0, 0, 0, 0, 0, 0, 0, 0, 0, 0, -2, -3, -8, -1]"
  by (simp add: falling_closes_def js_sub_def)

lemma acc_v2_fc: "acceleration_v2 falling_closes ! 39 = Some (Fin (1 / 3))"
  by (simp add: acceleration_v2_def velocity_v2_def pc_v2_def deltas_fc Let_def upt40 upt1_40
      or_zero_def js_or_def js_sub_def)

lemma atr2_v2: "atrFromCandles (highs_around 1 falling_closes) (lows_around 1 falling_closes) falling_closes 14 ! 39
   = Some (Fin 2)"
proof -
  have "atrFromCandles (highs_around 1 falling_closes) (lows_around 1 falling_closes) falling_closes 14 ! 39
    = Some (atr_values (true_ranges (highs_around 1 falling_closes) (lows_around 1 falling_closes) falling_closes) 14 ! (39 - 14))"
    by (rule atrFromCandles_nth) (simp_all add: len_fc)
  also have "\<dots> = Some (Fin 2)"
    unfolding tr2
    by (simp add: atr_values_def js_sum_def Let_def)
  finally show ?thesis .
qed

lemmas last_defs = lastClose_def lastRsi_v1_def lastLowerBB_v1_def lastUpperBB_v1_def lastA_v1_def
  lastAtr_v1_def lastRsi_v2_def lastLower_v2_def lastUpper_v2_def lastA_v2_def lastAtr_v2_def

lemma last_atr2_candles:
  "length atr2_candles = 40"
  "lastClose atr2_candles = Fin 100"
  "lastRsi_v1 atr2_candles = Some (Fin 0)"
  "lastLowerBB_v1 atr2_candles = Fin (1041 / 10)"
  "lastUpperBB_v1 atr2_candles = Fin (241 / 2)"
  "lastA_v1 atr2_candles = Fin (1 / 3)"
  "lastAtr_v1 atr2_candles = Some (Fin 2)"
  "lastRsi_v2 atr2_candles = Some (Fin 0)"
  "lastLower_v2 atr2_candles = Some (Fin (1041 / 10))"
  "lastUpper_v2 atr2_candles = Some (Fin (241 / 2))"
  "lastA_v2 atr2_candles = Some (Fin (1 / 3))"
  "lastAtr_v2 atr2_candles = Some (Fin 2)"
  by (simp_all add: last_defs atr2_candles_def length_mk_candles map_close_mk map_high_mk map_low_mk
      length_around len_fc rsi_v1_fc lower_v1_fc upper_v1_fc acc_v1_fc atr2 rsi_v2_fc lower_v2_fc
      upper_v2_fc acc_v2_fc atr2_v2)
    (simp add: falling_closes_def)

lemma analyze_v1_atr2:
  "analyzeCandles_v1 atr2_candles =
     Some \<lparr> side = LONG, entry = Fin 100, tp = Fin 106, sl = Fin 97, rr = Some (Fin 2),
            confidence = Fin 88,
            meta = \<lparr> meta_rsi = Fin 0, meta_lowerBB = Fin (1041 / 10), meta_upperBB = Fin (241 / 2),
                     meta_acceleration = Fin (33333333 / 100000000), meta_atr = Fin 2,
                     meta_close = Fin 100 \<rparr> \<rparr>"
  by (simp add: analyzeCandles_v1_last last_atr2_candles decide_v1_def js_gt_def levels_def js_sub_def
      riskReward_def confidence_v1_def js_min_def js_max_def js_or_def Let_def)

lemma analyze_v2_atr2:
  "analyzeCandles_v2 atr2_candles =
     Some \<lparr> side = LONG, entry = Fin 100, tp = Fin 106, sl = Fin 97, rr = Some (Fin 2) \<rparr>"
  by (simp add: analyzeCandles_v2_last last_atr2_candles missing_def num_of_def decide_v2_def js_gt_def
      levels_def js_sub_def riskReward_def Let_def)

lemma len_sc: "length small_closes = 40" by (simp add: small_closes_def)

lemma rsi_v1_sc: "computeRSI small_closes 14 ! 39 = Some (Fin 0)"
  by (simp add: small_closes_def computeRSI_def rsi_averages_v1_def seed_step_v1_def wilder_step_def
      rsi_value_v1_def js_sub_def js_ge_def js_eq_def js_gt_def Let_def nth_append)

lemma win_sc: "window_v1 small_closes 20 39 = map (\<lambda>x. Fin (x / 1000)) [14, 14, 14, 14, 14, 14, 14, 14, 14,
     14, 14, 14, 14, 14, 14, 14, 12, 9, 1, 0]"
  by (simp add: window_v1_def small_closes_def)

lemma sma_sc: "sma_at_v1 small_closes 20 39 = Fin (123 / 10000)"
  by (simp add: sma_at_v1_def win_sc js_or_def)

lemma sqrt_1681_small: "sqrt (1681 / 100000000) = 41 / 10000"
  by (rule real_sqrt_unique) (simp_all add: power2_eq_square)

lemma std_sc: "rollingStd_at small_closes 20 39 = Fin (41 / 10000)"
  by (simp add: rollingStd_at_def win_sc js_sum_def sq_dev_sum_def js_sub_def sqrt_1681_small)

lemma lower_v1_sc: "lowerBB_v1 small_closes ! 39 = Fin (41 / 10000)"
  by (simp add: lowerBB_v1_nth len_sc sma_sc std_sc js_or_def js_sub_def)

lemma upper_v1_sc: "upperBB_v1 small_closes ! 39 = Fin (41 / 2000)"
  by (simp add: upperBB_v1_nth len_sc sma_sc std_sc js_or_def)

lemma pc_sc: "priceChanges small_closes = map (\<lambda>x. Fin (x / 1000)) [0, 0, 0, 0, 0, 0, 0, 0, 0, 0, 0, 0,
   0, 0, 0, 0, 0, 0, 0, 0, 0, 0, 0, 0, 0, 0, 0, 0, 0, 0, 0, 0, 0, 0, 0, 0, -2, -3, -8, -1]"
  by (simp add: priceChanges_def len_sc upt40) (simp add: small_closes_def js_sub_def)

lemma acc_v1_sc: "acceleration_v1 small_closes ! 39 = Fin (1 / 3000)"
  by (simp add: acceleration_v1_def Let_def length_sma_v1 sma_v1_nth pc_sc sma_at_v1_def window_v1_def
      js_or_def js_sub_def)

lemma tr_small: "true_ranges (highs_around (1 / 1000) small_closes) (lows_around (1 / 1000) small_closes) small_closes
   = replicate 39 (Fin (1 / 500))"
  by (simp add: true_ranges_def len_sc upt1_40 true_range_def num_at_def highs_around_def lows_around_def
     upt40 small_closes_def js_sub_def js_max_def numeral_eq_Suc)

lemma tr_zero: "true_ranges (highs_around 0 falling_closes) (lows_around 0 falling_closes) falling_closes
   = replicate 39 (Fin 0)"
  by (simp add: true_ranges_def len_fc upt1_40 true_range_def num_at_def highs_around_def lows_around_def
     upt40 falling_closes_def js_sub_def js_max_def numeral_eq_Suc)

lemma tr_nan: "true_ranges (map (\<lambda>c. NaN) falling_closes) (lows_around 1 falling_closes) falling_closes
   = replicate 39 NaN"
  by (simp add: true_ranges_def len_fc upt1_40 true_range_def num_at_def lows_around_def
     upt40 falling_closes_def js_sub_def js_max_def numeral_eq_Suc)

lemma tr_inf: "true_ranges (map (\<lambda>c. PInf) falling_closes) (lows_around 1 falling_closes) falling_closes
   = replicate 39 PInf"
  by (simp add: true_ranges_def len_fc upt1_40 true_range_def num_at_def lows_around_def
     upt40 falling_closes_def js_sub_def js_max_def numeral_eq_Suc)

lemma atr_values_constant:
  "atr_values (replicate 39 (Fin x)) 14 ! 25 = Fin x"
  "atr_values (replicate 39 NaN) 14 ! 25 = NaN"
  "atr_values (replicate 39 PInf) 14 ! 25 = PInf"
  by (simp_all add: atr_values_def js_sum_def Let_def numeral_eq_Suc)

lemma atr_v1_const:
  assumes "true_ranges highs lows closes = replicate 39 x" and "length closes = 40"
  shows "computeATR highs lows closes 14 ! 39 = Some (atr_values (replicate 39 x) 14 ! 25)"
  using computeATR_nth [of 14 closes 39 highs lows] assms by simp

lemma atr_v2_const:
  assumes "true_ranges highs lows closes = replicate 39 x" and "length closes = 40"
  shows "atrFromCandles highs lows closes 14 ! 39 = Some (atr_values (replicate 39 x) 14 ! 25)"
  using atrFromCandles_nth [of 14 closes 39 highs lows] assms by simp

lemmas mk_simps = length_mk_candles map_close_mk map_high_mk map_low_mk length_around

lemma last_atr0_candles:
  "length atr0_candles = 40"
  "lastClose atr0_candles = Fin 100"
  "lastRsi_v1 atr0_candles = Some (Fin 0)"
  "lastLowerBB_v1 atr0_candles = Fin (1041 / 10)"
  "lastUpperBB_v1 atr0_candles = Fin (241 / 2)"
  "lastA_v1 atr0_candles = Fin (1 / 3)"
  "lastAtr_v1 atr0_candles = Some (Fin 0)"
  "lastRsi_v2 atr0_candles = Some (Fin 0)"
  "lastLower_v2 atr0_candles = Some (Fin (1041 / 10))"
  "lastUpper_v2 atr0_candles = Some (Fin (241 / 2))"
  "lastA_v2 atr0_candles = Some (Fin (1 / 3))"
  "lastAtr_v2 atr0_candles = Some (Fin 0)"
  by (simp_all add: last_defs atr0_candles_def mk_simps len_fc rsi_v1_fc lower_v1_fc upper_v1_fc
      acc_v1_fc rsi_v2_fc lower_v2_fc upper_v2_fc acc_v2_fc
      atr_v1_const [OF tr_zero] atr_v2_const [OF tr_zero] atr_values_constant)
    (simp add: falling_closes_def)

lemma analyze_v1_atr0:
  "analyzeCandles_v1 atr0_candles =
     Some \<lparr> side = LONG, entry = Fin 100, tp = Fin 100, sl = Fin 100, rr = None,
            confidence = Fin 93,
            meta = \<lparr> meta_rsi = Fin 0, meta_lowerBB = Fin (1041 / 10), meta_upperBB = Fin (241 / 2),
                     meta_acceleration = Fin (33333333 / 100000000), meta_atr = Fin 0,
                     meta_close = Fin 100 \<rparr> \<rparr>"
  by (simp add: analyzeCandles_v1_last last_atr0_candles decide_v1_def js_gt_def levels_def js_sub_def
      riskReward_def confidence_v1_def js_min_def js_max_def js_or_def Let_def)

lemma analyze_v2_atr0:
  "analyzeCandles_v2 atr0_candles =
     Some \<lparr> side = LONG, entry = Fin 100, tp = Fin 100, sl = Fin 100, rr = Some (Fin 0) \<rparr>"
  by (simp add: analyzeCandles_v2_last last_atr0_candles missing_def num_of_def decide_v2_def js_gt_def
      levels_def js_sub_def riskReward_def Let_def)

text \<open>A series made by \<open>mk_candles\<close> passes both fetchers unchanged.\<close>

lemma chronological_mk_candles:
  "chronological (mk_candles highs lows closes) = mk_candles highs lows closes"
proof (cases "closes = []")
  case True
  then show ?thesis by (simp add: chronological_def mk_candles_def)
next
  case False
  then have "t (mk_candles highs lows closes ! 0) = TNum (Fin 0)"
    and "t (mk_candles highs lows closes ! (length (mk_candles highs lows closes) - 1))
         = TNum (Fin (real (length closes - 1) * 300000))"
    by (simp_all add: mk_candles_def)
  then show ?thesis by (simp add: chronological_def stamp_gt_def)
qed

lemma fetch_mk_candles:
  assumes "30 \<le> length closes" and "length closes \<le> limit"
  shows "fetchCandlesFallback [Parsed (mk_candles highs lows closes)] limit
         = Inr (mk_candles highs lows closes)"
    and "fetchCandlesMulti [Parsed (mk_candles highs lows closes)] = Some (mk_candles highs lows closes)"
  using assms by (simp_all add: chronological_mk_candles length_mk_candles slice_last_def)

text \<open>A signal of \<open>analyzePhysics\<close> is the signal of the candles the fetcher returned.\<close>

lemma analyzePhysics_v1_signal:
  assumes "analyzePhysics_v1 attempts limit = Inr (Some s)"
  obtains candles where
    "fetchCandlesFallback attempts (if limit = 0 then 200 else limit) = Inr candles"
    and "analyzeCandles_v1 candles = Some s"
  using assms
  by (auto simp: analyzePhysics_v1_def analyzePhysics_try_v1_def split: sum.splits)

lemma analyzePhysics_v2_signal:
  assumes "analyzePhysics_v2 attempts = Inr (Some s)"
  obtains candles where "fetchCandlesMulti attempts = Some candles"
    and "analyzeCandles_v2 candles = Some s"
  using assms
  by (auto simp: analyzePhysics_v2_def split: option.splits)

lemma analyzePhysics_mk_candles:
  assumes "30 \<le> length closes" and "length closes \<le> 120"
  shows "analyzePhysics_v1 [Parsed (mk_candles highs lows closes)] 120
         = Inr (analyzeCandles_v1 (mk_candles highs lows closes))"
    and "analyzePhysics_v2 [Parsed (mk_candles highs lows closes)]
         = Inr (analyzeCandles_v2 (mk_candles highs lows closes))"
  using fetch_mk_candles [OF assms, of highs lows]
  by (simp_all add: analyzePhysics_v1_def analyzePhysics_try_v1_def analyzePhysics_v2_def)

section \<open>Price levels and risk-reward\<close>

lemma levels_v1:
  assumes "analyzeCandles_v1 candles = Some s"
  shows "\<exists>q. lastAtr_v1 candles = Some q \<and> entry s = lastClose candles
             \<and> sl s = fst (levels (side s) (entry s) q) \<and> tp s = snd (levels (side s) (entry s) q)
             \<and> rr s = map_option (toFixed 2) (riskReward (entry s) (sl s) (tp s))"
proof -
  from assms obtain r q where q: "lastAtr_v1 candles = Some q"
    and d: "decide_v1 (lastClose candles) r (lastLowerBB_v1 candles) (lastUpperBB_v1 candles)
           (lastA_v1 candles) q = Some s"
    by (rule analyzeCandles_v1_Some)
  show ?thesis using q decide_v1_Some(1-4) [OF d] by simp
qed

lemma levels_v2:
  assumes "analyzeCandles_v2 candles = Some s"
  shows "\<exists>q. lastAtr_v2 candles = Some q \<and> entry s = lastClose candles
             \<and> sl s = fst (levels (side s) (entry s) q) \<and> tp s = snd (levels (side s) (entry s) q)
             \<and> rr s = Some (num_of (riskReward (entry s) (sl s) (tp s)))"
proof -
  from assms obtain r lo up a q where q: "lastAtr_v2 candles = Some q"
    and d: "decide_v2 (lastClose candles) r lo up a q = Some s"
    by (rule analyzeCandles_v2_Some)
  show ?thesis using q decide_v2_Some(1-4) [OF d] by simp
qed

lemma example_levels:
  "levels LONG (Fin 100) (Fin 2) = (Fin 97, Fin 106)"
  "riskReward (Fin 100) (Fin 97) (Fin 106) = Some (Fin 2)"
  by (simp_all add: levels_def riskReward_def js_sub_def)

text \<open>
  Claim C5: for every signal either variant returns, the entry is the last close; a LONG
  signal has its stop-loss 1.5 ATR below and its take-profit 3 ATR above the entry, a
  SHORT signal has them 1.5 ATR above and 3 ATR below; a LONG signal with entry 100 and
  ATR 2 has stop-loss 97, take-profit 106 and risk-reward 2.
\<close>

theorem signal_price_levels:
  "(analyzePhysics_v1 attempts limit = Inr (Some s) \<longrightarrow>
      (\<exists>candles q.
          fetchCandlesFallback attempts (if limit = 0 then 200 else limit) = Inr candles
        \<and> lastAtr_v1 candles = Some q
        \<and> entry s = lastClose candles
        \<and> (side s = LONG \<longrightarrow>
              sl s = js_sub (entry s) (js_mul (Fin (3 / 2)) q)
            \<and> tp s = js_add (entry s) (js_mul (Fin 3) q))
        \<and> (side s = SHORT \<longrightarrow>
              sl s = js_add (entry s) (js_mul (Fin (3 / 2)) q)
            \<and> tp s = js_sub (entry s) (js_mul (Fin 3) q))
        \<and> (side s = LONG \<and> entry s = Fin 100 \<and> q = Fin 2 \<longrightarrow>
              sl s = Fin 97 \<and> tp s = Fin 106 \<and> rr s = Some (Fin 2))))
   \<and> (analyzePhysics_v2 attempts = Inr (Some s') \<longrightarrow>
      (\<exists>candles q.
          fetchCandlesMulti attempts = Some candles
        \<and> lastAtr_v2 candles = Some q
        \<and> entry s' = lastClose candles
        \<and> (side s' = LONG \<longrightarrow>
              sl s' = js_sub (entry s') (js_mul (Fin (3 / 2)) q)
            \<and> tp s' = js_add (entry s') (js_mul (Fin 3) q))
        \<and> (side s' = SHORT \<longrightarrow>
              sl s' = js_add (entry s') (js_mul (Fin (3 / 2)) q)
            \<and> tp s' = js_sub (entry s') (js_mul (Fin 3) q))
        \<and> (side s' = LONG \<and> entry s' = Fin 100 \<and> q = Fin 2 \<longrightarrow>
              sl s' = Fin 97 \<and> tp s' = Fin 106 \<and> rr s' = Some (Fin 2))))"
proof (intro conjI impI)
  assume "analyzePhysics_v1 attempts limit = Inr (Some s)"
  then obtain candles where
    f: "fetchCandlesFallback attempts (if limit = 0 then 200 else limit) = Inr candles"
    and a: "analyzeCandles_v1 candles = Some s"
    by (rule analyzePhysics_v1_signal)
  from levels_v1 [OF a] obtain q where q: "lastAtr_v1 candles = Some q"
    and e: "entry s = lastClose candles"
    and l: "sl s = fst (levels (side s) (entry s) q)" "tp s = snd (levels (side s) (entry s) q)"
    and r: "rr s = map_option (toFixed 2) (riskReward (entry s) (sl s) (tp s))"
    by blast
  have "side s = LONG \<longrightarrow>
              sl s = js_sub (entry s) (js_mul (Fin (3 / 2)) q)
            \<and> tp s = js_add (entry s) (js_mul (Fin 3) q)"
    using l by (simp add: levels_LONG)
  moreover have "side s = SHORT \<longrightarrow>
              sl s = js_add (entry s) (js_mul (Fin (3 / 2)) q)
            \<and> tp s = js_sub (entry s) (js_mul (Fin 3) q)"
    using l by (simp add: levels_SHORT)
  moreover have "side s = LONG \<and> entry s = Fin 100 \<and> q = Fin 2 \<longrightarrow>
              sl s = Fin 97 \<and> tp s = Fin 106 \<and> rr s = Some (Fin 2)"
    using l r by (auto simp: example_levels)
  ultimately show "\<exists>candles q.
          fetchCandlesFallback attempts (if limit = 0 then 200 else limit) = Inr candles
        \<and> lastAtr_v1 candles = Some q
        \<and> entry s = lastClose candles
        \<and> (side s = LONG \<longrightarrow>
              sl s = js_sub (entry s) (js_mul (Fin (3 / 2)) q)
            \<and> tp s = js_add (entry s) (js_mul (Fin 3) q))
        \<and> (side s = SHORT \<longrightarrow>
              sl s = js_add (entry s) (js_mul (Fin (3 / 2)) q)
            \<and> tp s = js_sub (entry s) (js_mul (Fin 3) q))
        \<and> (side s = LONG \<and> entry s = Fin 100 \<and> q = Fin 2 \<longrightarrow>
              sl s = Fin 97 \<and> tp s = Fin 106 \<and> rr s = Some (Fin 2))"
    using f q e by blast
next
  assume "analyzePhysics_v2 attempts = Inr (Some s')"
  then obtain candles where
    f: "fetchCandlesMulti attempts = Some candles"
    and a: "analyzeCandles_v2 candles = Some s'"
    by (rule analyzePhysics_v2_signal)
  from levels_v2 [OF a] obtain q where q: "lastAtr_v2 candles = Some q"
    and e: "entry s' = lastClose candles"
    and l: "sl s' = fst (levels (side s') (entry s') q)" "tp s' = snd (levels (side s') (entry s') q)"
    and r: "rr s' = Some (num_of (riskReward (entry s') (sl s') (tp s')))"
    by blast
  have "side s' = LONG \<longrightarrow>
              sl s' = js_sub (entry s') (js_mul (Fin (3 / 2)) q)
            \<and> tp s' = js_add (entry s') (js_mul (Fin 3) q)"
    using l by (simp add: levels_LONG)
  moreover have "side s' = SHORT \<longrightarrow>
              sl s' = js_add (entry s') (js_mul (Fin (3 / 2)) q)
            \<and> tp s' = js_sub (entry s') (js_mul (Fin 3) q)"
    using l by (simp add: levels_SHORT)
  moreover have "side s' = LONG \<and> entry s' = Fin 100 \<and> q = Fin 2 \<longrightarrow>
              sl s' = Fin 97 \<and> tp s' = Fin 106 \<and> rr s' = Some (Fin 2)"
    using l r by (auto simp: example_levels num_of_def)
  ultimately show "\<exists>candles q.
          fetchCandlesMulti attempts = Some candles
        \<and> lastAtr_v2 candles = Some q
        \<and> entry s' = lastClose candles
        \<and> (side s' = LONG \<longrightarrow>
              sl s' = js_sub (entry s') (js_mul (Fin (3 / 2)) q)
            \<and> tp s' = js_add (entry s') (js_mul (Fin 3) q))
        \<and> (side s' = SHORT \<longrightarrow>
              sl s' = js_add (entry s') (js_mul (Fin (3 / 2)) q)
            \<and> tp s' = js_sub (entry s') (js_mul (Fin 3) q))
        \<and> (side s' = LONG \<and> entry s' = Fin 100 \<and> q = Fin 2 \<longrightarrow>
              sl s' = Fin 97 \<and> tp s' = Fin 106 \<and> rr s' = Some (Fin 2))"
    using f q e by blast
qed

lemma analyzePhysics_atr2:
  "analyzePhysics_v1 [Parsed atr2_candles] 120 = Inr (Some atr2_signal_v1)"
  "analyzePhysics_v2 [Parsed atr2_candles] = Inr (Some atr2_signal_v2)"
  "fetchCandlesFallback [Parsed atr2_candles] 120 = Inr atr2_candles"
  "fetchCandlesMulti [Parsed atr2_candles] = Some atr2_candles"
  using analyzePhysics_mk_candles [of falling_closes "highs_around 1 falling_closes" "lows_around 1 falling_closes"]
    fetch_mk_candles [of falling_closes 120 "highs_around 1 falling_closes" "lows_around 1 falling_closes"]
    analyze_v1_atr2 analyze_v2_atr2
  by (simp_all add: len_fc atr2_candles_def [symmetric] atr2_signal_v1_def atr2_signal_v2_def)

theorem signal_price_levels_witness:
  "analyzePhysics_v1 [Parsed atr2_candles] 120 = Inr (Some atr2_signal_v1)
   \<and> analyzePhysics_v2 [Parsed atr2_candles] = Inr (Some atr2_signal_v2)
   \<and> lastAtr_v1 atr2_candles = Some (Fin 2) \<and> lastAtr_v2 atr2_candles = Some (Fin 2)
   \<and> side atr2_signal_v1 = LONG \<and> entry atr2_signal_v1 = Fin 100
   \<and> sl atr2_signal_v1 = Fin 97 \<and> tp atr2_signal_v1 = Fin 106 \<and> rr atr2_signal_v1 = Some (Fin 2)
   \<and> side atr2_signal_v2 = LONG \<and> entry atr2_signal_v2 = Fin 100
   \<and> sl atr2_signal_v2 = Fin 97 \<and> tp atr2_signal_v2 = Fin 106 \<and> rr atr2_signal_v2 = Some (Fin 2)"
proof -
  have e: "side atr2_signal_v1 = LONG" "entry atr2_signal_v1 = Fin 100"
    "side atr2_signal_v2 = LONG" "entry atr2_signal_v2 = Fin 100"
    by (simp_all add: atr2_signal_v1_def atr2_signal_v2_def)
  show ?thesis
    using signal_price_levels [of "[Parsed atr2_candles]" 120 atr2_signal_v1 atr2_signal_v2]
      analyzePhysics_atr2 last_atr2_candles(7,12) e
    by auto
qed

section \<open>Risk-reward\<close>

lemma rr_v1:
  assumes "analyzeCandles_v1 candles = Some s" and "lastAtr_v1 candles = Some (Fin q)"
  shows "rr s = (if q = 0 then None else Some (Fin 2))"
proof -
  from levels_v1 [OF assms(1)] assms(2)
  have l: "sl s = fst (levels (side s) (entry s) (Fin q))" "tp s = snd (levels (side s) (entry s) (Fin q))"
    and r: "rr s = map_option (toFixed 2) (riskReward (entry s) (sl s) (tp s))"
    by auto
  from signal_entry_finite_v1 [OF assms(1)] obtain e where e: "entry s = Fin e" by blast
  show ?thesis
  proof (cases "q = 0")
    case True
    then show ?thesis
      using l r e side_cases [of "side s"]
      by (auto simp: levels_def riskReward_def js_sub_def Let_def)
  next
    case False
    then show ?thesis
      using riskReward_two [OF False, of e "side s"] l r e by simp
  qed
qed

lemma rr_v2:
  assumes "analyzeCandles_v2 candles = Some s" and "lastAtr_v2 candles = Some (Fin q)"
  shows "rr s = (if q = 0 then Some (Fin 0) else Some (Fin 2))"
proof -
  from levels_v2 [OF assms(1)] assms(2)
  have l: "sl s = fst (levels (side s) (entry s) (Fin q))" "tp s = snd (levels (side s) (entry s) (Fin q))"
    and r: "rr s = Some (num_of (riskReward (entry s) (sl s) (tp s)))"
    by auto
  from signal_entry_finite_v2 [OF assms(1)] obtain e where e: "entry s = Fin e" by blast
  show ?thesis
  proof (cases "q = 0")
    case True
    then show ?thesis
      using l r e side_cases [of "side s"]
      by (auto simp: levels_def riskReward_def js_sub_def Let_def num_of_def)
  next
    case False
    then show ?thesis
      using riskReward_two [OF False, of e "side s"] l r e by (simp add: num_of_def)
  qed
qed

text \<open>
  Claim C10, amended: for every signal either variant returns, when the ATR at the last
  index is a finite number above zero the risk-reward is exactly 2, for LONG and for
  SHORT.
\<close>

theorem positive_atr_risk_reward_two:
  "(analyzePhysics_v1 attempts limit = Inr (Some s) \<longrightarrow>
      (\<exists>candles.
          fetchCandlesFallback attempts (if limit = 0 then 200 else limit) = Inr candles
        \<and> (\<forall>q. lastAtr_v1 candles = Some (Fin q) \<and> 0 < q \<longrightarrow> rr s = Some (Fin 2))))
   \<and> (analyzePhysics_v2 attempts = Inr (Some s') \<longrightarrow>
      (\<exists>candles.
          fetchCandlesMulti attempts = Some candles
        \<and> (\<forall>q. lastAtr_v2 candles = Some (Fin q) \<and> 0 < q \<longrightarrow> rr s' = Some (Fin 2))))"
proof (intro conjI impI)
  assume "analyzePhysics_v1 attempts limit = Inr (Some s)"
  then obtain candles where
    f: "fetchCandlesFallback attempts (if limit = 0 then 200 else limit) = Inr candles"
    and a: "analyzeCandles_v1 candles = Some s"
    by (rule analyzePhysics_v1_signal)
  have "\<forall>q. lastAtr_v1 candles = Some (Fin q) \<and> 0 < q \<longrightarrow> rr s = Some (Fin 2)"
    using rr_v1 [OF a] by auto
  then show "\<exists>candles.
          fetchCandlesFallback attempts (if limit = 0 then 200 else limit) = Inr candles
        \<and> (\<forall>q. lastAtr_v1 candles = Some (Fin q) \<and> 0 < q \<longrightarrow> rr s = Some (Fin 2))"
    using f by blast
next
  assume "analyzePhysics_v2 attempts = Inr (Some s')"
  then obtain candles where
    f: "fetchCandlesMulti attempts = Some candles"
    and a: "analyzeCandles_v2 candles = Some s'"
    by (rule analyzePhysics_v2_signal)
  have "\<forall>q. lastAtr_v2 candles = Some (Fin q) \<and> 0 < q \<longrightarrow> rr s' = Some (Fin 2)"
    using rr_v2 [OF a] by auto
  then show "\<exists>candles.
          fetchCandlesMulti attempts = Some candles
        \<and> (\<forall>q. lastAtr_v2 candles = Some (Fin q) \<and> 0 < q \<longrightarrow> rr s' = Some (Fin 2))"
    using f by blast
qed

theorem positive_atr_risk_reward_two_witness:
  "analyzePhysics_v1 [Parsed atr2_candles] 120 = Inr (Some atr2_signal_v1)
   \<and> analyzePhysics_v2 [Parsed atr2_candles] = Inr (Some atr2_signal_v2)
   \<and> lastAtr_v1 atr2_candles = Some (Fin 2) \<and> lastAtr_v2 atr2_candles = Some (Fin 2)
   \<and> (0::real) < 2
   \<and> rr atr2_signal_v1 = Some (Fin 2) \<and> rr atr2_signal_v2 = Some (Fin 2)"
  using positive_atr_risk_reward_two [of "[Parsed atr2_candles]" 120 atr2_signal_v1 atr2_signal_v2]
    analyzePhysics_atr2 last_atr2_candles(7,12)
  by auto

text \<open>
  Claim C7: when the ATR is 0 the risk-reward of the signal is \<open>null\<close>, not a number.
  The first variant returns \<open>null\<close> (lemma \<open>rr_v1\<close>); the second passes the \<open>null\<close>
  through \<open>Number\<close> and returns 0 (lemma \<open>rr_v2\<close>). On the series whose highs and lows
  equal the previous close the ATR is 0, the second variant returns a LONG signal with
  risk-reward 0 and the first one with risk-reward \<open>null\<close>.
\<close>

theorem zero_atr_risk_reward_is_zero:
  "lastAtr_v2 atr0_candles = Some (Fin 0)
   \<and> analyzePhysics_v2 [Parsed atr0_candles] = Inr (Some atr0_signal_v2)
   \<and> rr atr0_signal_v2 = Some (Fin 0)
   \<and> lastAtr_v1 atr0_candles = Some (Fin 0)
   \<and> analyzePhysics_v1 [Parsed atr0_candles] 120 = Inr (Some atr0_signal_v1)
   \<and> rr atr0_signal_v1 = None"
  using analyzePhysics_mk_candles [of falling_closes "highs_around 0 falling_closes" "lows_around 0 falling_closes"]
    analyze_v1_atr0 analyze_v2_atr0 last_atr0_candles(7,12)
  by (simp add: len_fc atr0_candles_def [symmetric] atr0_signal_v1_def atr0_signal_v2_def)

lemma js_add_zero_right: "js_add x (Fin 0) = x"
  by (cases x) auto

lemma confidence_v1_spec:
  "confidence_v1 sd r a ent q = confidence_spec sd r a (js_or ent (Fin 1)) q"
  by (cases sd) (simp_all add: confidence_v1_def confidence_spec_def Let_def js_add_zero_right)

lemma bounded_above_Fin: "bounded_above (Fin v)"
  by (simp add: bounded_above_def)

lemma bounded_above_min: "y \<noteq> NaN \<Longrightarrow> bounded_above (js_min (Fin c) y)"
  by (cases y) (auto simp: bounded_above_def js_min_def)

lemma bounded_above_add: "bounded_above x \<Longrightarrow> bounded_above y \<Longrightarrow> bounded_above (js_add x y)"
  by (auto simp: bounded_above_def)

lemma clamp_round_range:
  assumes "bounded_above c"
  shows "\<exists>k. js_max (Fin 30) (js_min (Fin 95) (js_round c)) = Fin (of_int k) \<and> 30 \<le> k \<and> k \<le> 95"
proof (cases c)
  case (Fin v)
  let ?k = "\<lfloor>v + 1 / 2\<rfloor>"
  have "js_max (Fin 30) (js_min (Fin 95) (js_round c)) = Fin (of_int (max 30 (min 95 ?k)))"
    using Fin by (auto simp: js_max_def js_min_def)
  then show ?thesis by (intro exI [of _ "max 30 (min 95 ?k)"]) simp
next
  case NInf
  then have "js_max (Fin 30) (js_min (Fin 95) (js_round c)) = Fin (of_int 30)"
    by (simp add: js_max_def js_min_def)
  then show ?thesis by (intro exI [of _ 30]) simp
qed (use assms in \<open>auto simp: bounded_above_def\<close>)

lemma confidence_spec_range:
  assumes "r \<noteq> NaN" and "a \<noteq> NaN" and "d \<noteq> 0"
  shows "\<exists>k. confidence_spec sd r a (Fin d) q = Fin (of_int k) \<and> 30 \<le> k \<and> k \<le> 95"
proof -
  have x: "js_sub (Fin 30) r \<noteq> NaN" "js_sub r (Fin 70) \<noteq> NaN"
    using assms(1) by (cases r; simp add: js_sub_def)+
  have "js_mul (js_div (js_abs a) (Fin d)) (Fin 1000) \<noteq> NaN"
    using assms(2,3) by (cases a) auto
  then have y: "bounded_above (js_min (Fin 10) (js_mul (js_div (js_abs a) (Fin d)) (Fin 1000)))"
    by (rule bounded_above_min)
  have "bounded_above (js_add (Fin 70)
                (case sd of LONG \<Rightarrow> js_min (Fin 15) (js_sub (Fin 30) r)
                          | SHORT \<Rightarrow> js_min (Fin 15) (js_sub r (Fin 70))))"
    using x bounded_above_Fin [of 70]
    by (cases sd) (simp_all add: bounded_above_add bounded_above_min)
  then have "bounded_above (js_add
          (js_add
             (js_add (Fin 70)
                (case sd of LONG \<Rightarrow> js_min (Fin 15) (js_sub (Fin 30) r)
                          | SHORT \<Rightarrow> js_min (Fin 15) (js_sub r (Fin 70))))
             (js_min (Fin 10) (js_mul (js_div (js_abs a) (Fin d)) (Fin 1000))))
          (if js_lt (js_div q (Fin d)) (Fin (5 / 1000)) then Fin 5 else Fin 0))"
    using y bounded_above_Fin [of 5] bounded_above_Fin [of 0]
    by (simp add: bounded_above_add)
  then show ?thesis
    unfolding confidence_spec_def by (rule clamp_round_range)
qed

lemma confidence_of_signal:
  assumes "analyzeCandles_v1 candles = Some s"
  shows "\<exists>r q e k. lastRsi_v1 candles = Some r \<and> lastAtr_v1 candles = Some q \<and> entry s = Fin e
           \<and> confidence s = confidence_spec (side s) r (lastA_v1 candles) (Fin (if e = 0 then 1 else e)) q
           \<and> confidence s = Fin (of_int k) \<and> 30 \<le> k \<and> k \<le> 95"
proof -
  from assms obtain r q where r: "lastRsi_v1 candles = Some r" and q: "lastAtr_v1 candles = Some q"
    and d: "decide_v1 (lastClose candles) r (lastLowerBB_v1 candles) (lastUpperBB_v1 candles)
           (lastA_v1 candles) q = Some s"
    by (rule analyzeCandles_v1_Some)
  from signal_entry_finite_v1 [OF assms] obtain e where e: "entry s = Fin e" by blast
  let ?d = "if e = 0 then 1 else e"
  have lc: "lastClose candles = Fin e"
    using decide_v1_Some(1) [OF d] e by simp
  have "confidence s = confidence_v1 (side s) r (lastA_v1 candles) (Fin e) q"
    using decide_v1_Some(5) [OF d] lc by simp
  then have c: "confidence s = confidence_spec (side s) r (lastA_v1 candles) (Fin ?d) q"
    by (simp add: confidence_v1_spec js_or_def)
  have nz: "?d \<noteq> 0" by simp
  have "r \<noteq> NaN" and "lastA_v1 candles \<noteq> NaN"
    using side_cases [of "side s"] decide_v1_Some(6,7) [OF d] by (auto simp: js_gt_def)
  then have "\<exists>k. confidence_spec (side s) r (lastA_v1 candles) (Fin ?d) q = Fin (of_int k)
                \<and> 30 \<le> k \<and> k \<le> 95"
    using nz by (rule confidence_spec_range)
  then obtain k where "confidence_spec (side s) r (lastA_v1 candles) (Fin ?d) q = Fin (of_int k)"
    and "30 \<le> k" and "k \<le> 95"
    by blast
  then show ?thesis using r q e c by auto
qed

lemma len_gc: "length gap_closes = 40" by (simp add: gap_closes_def)
lemma len_nf: "length nan_first_closes = 40" by (simp add: nan_first_closes_def)

lemma rsi_v1_gc: "computeRSI gap_closes 14 ! 39 = Some (Fin 0)"
  by (simp add: gap_closes_def computeRSI_def rsi_averages_v1_def seed_step_v1_def wilder_step_def
      rsi_value_v1_def js_sub_def js_ge_def js_eq_def js_gt_def Let_def nth_append)

lemma win_gc: "window_v1 gap_closes 20 39 = map Fin [114, 114, 114, 114, 114] @ [NaN, PInf, NaN]
     @ map Fin [114, 114, 114, 114, 114, 114, 114, 114, 112, 109, 101, 100]"
  by (simp add: window_v1_def gap_closes_def)

lemma sma_gc: "sma_at_v1 gap_closes 20 39 = PInf"
  by (simp add: sma_at_v1_def win_gc js_or_def)

lemma std_gc: "rollingStd_at gap_closes 20 39 = NaN"
  by (simp add: rollingStd_at_def win_gc js_sum_def sq_dev_sum_def js_sub_def)

lemma bands_v1_gc: "lowerBB_v1 gap_closes ! 39 = PInf" "upperBB_v1 gap_closes ! 39 = PInf"
  by (simp_all add: lowerBB_v1_nth upperBB_v1_nth len_gc sma_gc std_gc js_or_def js_sub_def)

lemma acc_v1_gc: "acceleration_v1 gap_closes ! 39 = Fin (1 / 3)"
  by (simp add: acceleration_v1_def Let_def length_sma_v1 sma_v1_nth sma_at_v1_def window_v1_def
        priceChanges_def len_gc upt40)
     (simp add: gap_closes_def js_or_def js_sub_def)

lemma tr_gap: "true_ranges (highs_around 1 gap_closes) (lows_around 1 gap_closes) gap_closes
   = replicate 25 (Fin 2) @ [NaN, NaN, NaN] @ replicate 11 (Fin 2)"
  by (simp add: true_ranges_def len_gc upt1_40 true_range_def num_at_def highs_around_def lows_around_def
     upt40 gap_closes_def js_sub_def js_max_def numeral_eq_Suc)

lemma atr_v1_gc: "computeATR (highs_around 1 gap_closes) (lows_around 1 gap_closes) gap_closes 14 ! 39
   = Some NaN"
proof -
  have "computeATR (highs_around 1 gap_closes) (lows_around 1 gap_closes) gap_closes 14 ! 39
    = Some (atr_values (true_ranges (highs_around 1 gap_closes) (lows_around 1 gap_closes) gap_closes) 14 ! (39 - 14))"
    by (rule computeATR_nth) (simp_all add: len_gc)
  also have "\<dots> = Some NaN"
    unfolding tr_gap
    by (simp add: atr_values_def js_sum_def Let_def numeral_eq_Suc)
  finally show ?thesis .
qed

lemma rsi_nf: "computeRSI nan_first_closes 14 ! 39 = Some NaN" "rsiFromArray nan_first_closes 14 ! 39 = Some NaN"
  by (simp_all add: nan_first_closes_def computeRSI_def rsiFromArray_def rsi_averages_v1_def
      rsi_averages_v2_def seed_step_v1_def seed_step_v2_def wilder_step_def
      rsi_value_v1_def rsi_value_v2_def js_sub_def js_ge_def js_eq_def js_gt_def Let_def nth_append)

lemma last_small_candles:
  "length small_candles = 40"
  "lastClose small_candles = Fin 0"
  "lastRsi_v1 small_candles = Some (Fin 0)"
  "lastLowerBB_v1 small_candles = Fin (41 / 10000)"
  "lastUpperBB_v1 small_candles = Fin (41 / 2000)"
  "lastA_v1 small_candles = Fin (1 / 3000)"
  "lastAtr_v1 small_candles = Some (Fin (1 / 500))"
  by (simp_all add: last_defs small_candles_def mk_simps len_sc rsi_v1_sc lower_v1_sc upper_v1_sc
      acc_v1_sc atr_v1_const [OF tr_small] atr_values_constant)
    (simp add: small_closes_def)

lemma last_nan_high_candles:
  "length nan_high_candles = 40"
  "lastClose nan_high_candles = Fin 100"
  "lastRsi_v1 nan_high_candles = Some (Fin 0)"
  "lastLowerBB_v1 nan_high_candles = Fin (1041 / 10)"
  "lastUpperBB_v1 nan_high_candles = Fin (241 / 2)"
  "lastA_v1 nan_high_candles = Fin (1 / 3)"
  "lastAtr_v1 nan_high_candles = Some NaN"
  by (simp_all add: last_defs nan_high_candles_def mk_simps len_fc rsi_v1_fc lower_v1_fc upper_v1_fc
      acc_v1_fc atr_v1_const [OF tr_nan] atr_values_constant)
    (simp add: falling_closes_def)

lemma last_inf_high_candles:
  "length inf_high_candles = 40"
  "lastClose inf_high_candles = Fin 100"
  "lastRsi_v2 inf_high_candles = Some (Fin 0)"
  "lastLower_v2 inf_high_candles = Some (Fin (1041 / 10))"
  "lastUpper_v2 inf_high_candles = Some (Fin (241 / 2))"
  "lastA_v2 inf_high_candles = Some (Fin (1 / 3))"
  "lastAtr_v2 inf_high_candles = Some PInf"
  by (simp_all add: last_defs inf_high_candles_def mk_simps len_fc rsi_v2_fc lower_v2_fc upper_v2_fc
      acc_v2_fc atr_v2_const [OF tr_inf] atr_values_constant)
    (simp add: falling_closes_def)

lemma last_gap_candles:
  "length gap_candles = 40"
  "lastClose gap_candles = Fin 100"
  "lastRsi_v1 gap_candles = Some (Fin 0)"
  "lastLowerBB_v1 gap_candles = PInf"
  "lastUpperBB_v1 gap_candles = PInf"
  "lastA_v1 gap_candles = Fin (1 / 3)"
  "lastAtr_v1 gap_candles = Some NaN"
  by (simp_all add: last_defs gap_candles_def mk_simps len_gc rsi_v1_gc bands_v1_gc
      acc_v1_gc atr_v1_gc)
    (simp add: gap_closes_def)

lemma last_nan_first_candles:
  "length nan_first_candles = 40"
  "lastRsi_v1 nan_first_candles = Some NaN"
  "lastRsi_v2 nan_first_candles = Some NaN"
  by (simp_all add: last_defs nan_first_candles_def mk_simps len_nf rsi_nf)

lemmas decide_eval = decide_v1_def decide_v2_def js_gt_def levels_def js_sub_def
  riskReward_def confidence_v1_def js_min_def js_max_def js_or_def Let_def missing_def num_of_def

lemma analyze_small: "analyzeCandles_v1 small_candles = Some small_signal"
  by (simp add: analyzeCandles_v1_last last_small_candles small_signal_def decide_eval)

lemma analyze_nan_high: "analyzeCandles_v1 nan_high_candles = Some nan_atr_signal"
  by (simp add: analyzeCandles_v1_last last_nan_high_candles nan_atr_signal_def decide_eval)

lemma analyze_gap: "analyzeCandles_v1 gap_candles = Some gap_signal"
  by (simp add: analyzeCandles_v1_last last_gap_candles gap_signal_def decide_eval)

lemma analyze_inf_high: "analyzeCandles_v2 inf_high_candles = Some inf_atr_signal"
  by (simp add: analyzeCandles_v2_last last_inf_high_candles inf_atr_signal_def decide_eval)

lemma analyzePhysics_examples:
  "analyzePhysics_v1 [Parsed small_candles] 120 = Inr (Some small_signal)"
  "analyzePhysics_v1 [Parsed nan_high_candles] 120 = Inr (Some nan_atr_signal)"
  "analyzePhysics_v1 [Parsed gap_candles] 120 = Inr (Some gap_signal)"
  "analyzePhysics_v2 [Parsed inf_high_candles] = Inr (Some inf_atr_signal)"
  "fetchCandlesFallback [Parsed atr2_candles] 120 = Inr atr2_candles"
  using analyzePhysics_mk_candles(1) [of small_closes "highs_around (1 / 1000) small_closes" "lows_around (1 / 1000) small_closes"]
    analyzePhysics_mk_candles(1) [of falling_closes "map (\<lambda>c. NaN) falling_closes" "lows_around 1 falling_closes"]
    analyzePhysics_mk_candles(1) [of gap_closes "highs_around 1 gap_closes" "lows_around 1 gap_closes"]
    analyzePhysics_mk_candles(2) [of falling_closes "map (\<lambda>c. PInf) falling_closes" "lows_around 1 falling_closes"]
    analyze_small analyze_nan_high analyze_gap analyze_inf_high analyzePhysics_atr2(3)
  by (simp_all add: len_fc len_sc len_gc small_candles_def [symmetric] nan_high_candles_def [symmetric]
      gap_candles_def [symmetric] inf_high_candles_def [symmetric])

section \<open>The confidence score\<close>

text \<open>
  Claim C6 as stated fails at an entry of 0: the code divides the acceleration and the
  ATR by \<open>entry || 1\<close>, that is by 1, where the claim divides by the entry. On the small
  series the code returns a confidence of 90 and the claim's formula gives 95.
\<close>

theorem confidence_divides_by_one_at_zero:
  "analyzePhysics_v1 [Parsed small_candles] 120 = Inr (Some small_signal)
   \<and> side small_signal = LONG \<and> entry small_signal = Fin 0
   \<and> lastRsi_v1 small_candles = Some (Fin 0)
   \<and> lastA_v1 small_candles = Fin (1 / 3000)
   \<and> lastAtr_v1 small_candles = Some (Fin (1 / 500))
   \<and> confidence small_signal = Fin 90
   \<and> confidence_spec LONG (Fin 0) (Fin (1 / 3000)) (Fin 0) (Fin (1 / 500)) = Fin 95"
  by (simp add: analyzePhysics_examples last_small_candles small_signal_def confidence_spec_def
      js_sub_def js_min_def js_max_def)

text \<open>
  Claim C6, amended: for every signal of the first variant the confidence is an integer
  between 30 and 95, and it is the claim's formula with the acceleration and the ATR
  divided by the entry, or by 1 when the entry is 0.
\<close>

theorem confidence_score:
  assumes "analyzePhysics_v1 attempts limit = Inr (Some s)"
  shows "\<exists>candles r q e k.
           fetchCandlesFallback attempts (if limit = 0 then 200 else limit) = Inr candles
         \<and> lastRsi_v1 candles = Some r \<and> lastAtr_v1 candles = Some q \<and> entry s = Fin e
         \<and> confidence s
             = confidence_spec (side s) r (lastA_v1 candles) (Fin (if e = 0 then 1 else e)) q
         \<and> confidence s = Fin (of_int k) \<and> 30 \<le> k \<and> k \<le> 95"
proof -
  from assms obtain candles where
    f: "fetchCandlesFallback attempts (if limit = 0 then 200 else limit) = Inr candles"
    and a: "analyzeCandles_v1 candles = Some s"
    by (rule analyzePhysics_v1_signal)
  show ?thesis using f confidence_of_signal [OF a] by blast
qed

theorem confidence_score_witness:
  "analyzePhysics_v1 [Parsed atr2_candles] 120 = Inr (Some atr2_signal_v1)
   \<and> fetchCandlesFallback [Parsed atr2_candles] 120 = Inr atr2_candles
   \<and> lastRsi_v1 atr2_candles = Some (Fin 0) \<and> lastA_v1 atr2_candles = Fin (1 / 3)
   \<and> lastAtr_v1 atr2_candles = Some (Fin 2) \<and> entry atr2_signal_v1 = Fin 100
   \<and> confidence atr2_signal_v1 = confidence_spec LONG (Fin 0) (Fin (1 / 3)) (Fin 100) (Fin 2)
   \<and> confidence atr2_signal_v1 = Fin 88"
proof -
  have "confidence_spec LONG (Fin 0) (Fin (1 / 3)) (Fin 100) (Fin 2) = Fin 88"
    by (simp add: confidence_spec_def js_sub_def js_min_def js_max_def)
  then show ?thesis
    using confidence_score [OF analyzePhysics_atr2(1)] analyzePhysics_atr2 last_atr2_candles
    by (simp add: atr2_signal_v1_def)
qed

section \<open>No signal\<close>

lemma nan_band_blocks:
  assumes "x \<noteq> NInf" and "x \<noteq> NaN"
  shows "js_sub m (js_mul (Fin 2) x) = NaN \<Longrightarrow> \<not> js_gt c (js_add m (js_mul (Fin 2) x))"
    and "js_add m (js_mul (Fin 2) x) = NaN \<Longrightarrow> \<not> js_lt c (js_sub m (js_mul (Fin 2) x))"
  using assms by (cases m; cases x; cases c; auto simp: js_sub_def js_gt_def)+

lemma js_or_sqrt_not_NaN: "js_or (js_sqrt v) (Fin 0) \<noteq> NaN"
  using js_sqrt_range [of v] by (auto simp: js_or_def)

lemma nan_band_no_signal_v1:
  assumes "candles \<noteq> []" and "lastLowerBB_v1 candles = NaN \<or> lastUpperBB_v1 candles = NaN"
  shows "decide_v1 (lastClose candles) r (lastLowerBB_v1 candles) (lastUpperBB_v1 candles) a q = None"
proof -
  let ?closes = "map close candles"
  let ?i = "length candles - 1"
  let ?x = "js_or (rollingStd_at ?closes 20 ?i) (Fin 0)"
  have i: "?i < length ?closes" using assms(1) by simp
  have x: "?x \<noteq> NInf" "?x \<noteq> NaN"
    unfolding rollingStd_at_def Let_def by (rule js_or_sqrt_not_NInf js_or_sqrt_not_NaN)+
  have lo: "lastLowerBB_v1 candles = js_sub (sma_at_v1 ?closes 20 ?i) (js_mul (Fin 2) ?x)"
    and up: "lastUpperBB_v1 candles = js_add (sma_at_v1 ?closes 20 ?i) (js_mul (Fin 2) ?x)"
    using lowerBB_v1_nth [OF i] upperBB_v1_nth [OF i]
    by (simp_all add: lastLowerBB_v1_def lastUpperBB_v1_def)
  have "\<not> js_lt (lastClose candles) (lastLowerBB_v1 candles)"
    and "\<not> js_gt (lastClose candles) (lastUpperBB_v1 candles)"
    using assms(2) nan_band_blocks [OF x, of "sma_at_v1 ?closes 20 ?i" "lastClose candles"]
    unfolding lo up by (auto simp: js_gt_def)
  then show ?thesis by (simp add: decide_v1_def)
qed

lemma nan_no_signal_v1:
  assumes "r = NaN \<or> a = NaN"
  shows "decide_v1 c r lo up a q = None"
  using assms by (auto simp: decide_v1_def js_gt_def)

text \<open>
  Claim C4, amended: the engine returns no signal when fewer than 40 candles are
  supplied; in the first variant also when, at the last index, the RSI is \<open>null\<close> or
  NaN, a band or the acceleration is NaN, or the ATR is \<open>null\<close>; in the second variant
  also when the RSI, a band, the acceleration or the ATR is \<open>null\<close> or NaN.
  \<open>analyzePhysics\<close> never throws in either variant.
\<close>

theorem no_signal_conditions:
  "(length candles < 40 \<longrightarrow> analyzeCandles_v1 candles = None \<and> analyzeCandles_v2 candles = None)
   \<and> (lastRsi_v1 candles = None \<or> lastRsi_v1 candles = Some NaN \<or> lastLowerBB_v1 candles = NaN
       \<or> lastUpperBB_v1 candles = NaN \<or> lastA_v1 candles = NaN \<or> lastAtr_v1 candles = None
       \<longrightarrow> analyzeCandles_v1 candles = None)
   \<and> (missing (lastRsi_v2 candles) \<or> missing (lastLower_v2 candles) \<or> missing (lastUpper_v2 candles)
       \<or> missing (lastA_v2 candles) \<or> missing (lastAtr_v2 candles)
       \<longrightarrow> analyzeCandles_v2 candles = None)
   \<and> (\<exists>r. analyzePhysics_v1 attempts limit = Inr r)
   \<and> (\<exists>r. analyzePhysics_v2 attempts = Inr r)"
proof (intro conjI impI)
  assume "length candles < 40"
  then show "analyzeCandles_v1 candles = None" by (simp add: analyzeCandles_v1_def)
next
  assume "length candles < 40"
  then show "analyzeCandles_v2 candles = None" by (simp add: analyzeCandles_v2_def)
next
  assume c: "lastRsi_v1 candles = None \<or> lastRsi_v1 candles = Some NaN \<or> lastLowerBB_v1 candles = NaN
       \<or> lastUpperBB_v1 candles = NaN \<or> lastA_v1 candles = NaN \<or> lastAtr_v1 candles = None"
  show "analyzeCandles_v1 candles = None"
  proof (cases "length candles < 40")
    case True
    then show ?thesis by (simp add: analyzeCandles_v1_def)
  next
    case False
    then have ne: "candles \<noteq> []" by auto
    show ?thesis
      using c False nan_band_no_signal_v1 [OF ne] nan_no_signal_v1
      unfolding analyzeCandles_v1_last
      by (auto split: option.splits)
  qed
next
  assume "missing (lastRsi_v2 candles) \<or> missing (lastLower_v2 candles) \<or> missing (lastUpper_v2 candles)
       \<or> missing (lastA_v2 candles) \<or> missing (lastAtr_v2 candles)"
  then show "analyzeCandles_v2 candles = None"
    unfolding analyzeCandles_v2_last by auto
next
  show "\<exists>r. analyzePhysics_v1 attempts limit = Inr r"
    by (simp add: analyzePhysics_v1_def split: sum.splits)
next
  show "\<exists>r. analyzePhysics_v2 attempts = Inr r"
    by (simp add: analyzePhysics_v2_def split: option.splits)
qed

theorem no_signal_conditions_witness:
  "length ([] :: candle list) < 40
   \<and> analyzeCandles_v1 [] = None \<and> analyzeCandles_v2 [] = None
   \<and> lastRsi_v1 nan_first_candles = Some NaN \<and> analyzeCandles_v1 nan_first_candles = None
   \<and> missing (lastRsi_v2 nan_first_candles) \<and> analyzeCandles_v2 nan_first_candles = None"
  using no_signal_conditions [of "[]" "[]" 120] no_signal_conditions [of nan_first_candles "[]" 120]
    last_nan_first_candles
  by (simp add: missing_def)

text \<open>
  Claim C4 as stated fails: the first variant checks the values for \<open>null\<close> only and
  returns a LONG signal when the ATR is NaN, also when both bands are infinite; the
  second variant checks for \<open>null\<close> and NaN and returns a LONG signal when the ATR is
  infinite.
\<close>

theorem signal_despite_non_finite_values:
  "lastAtr_v1 nan_high_candles = Some NaN
   \<and> analyzePhysics_v1 [Parsed nan_high_candles] 120 = Inr (Some nan_atr_signal)
   \<and> lastLowerBB_v1 gap_candles = PInf \<and> lastUpperBB_v1 gap_candles = PInf
   \<and> lastAtr_v1 gap_candles = Some NaN
   \<and> analyzePhysics_v1 [Parsed gap_candles] 120 = Inr (Some gap_signal)
   \<and> lastAtr_v2 inf_high_candles = Some PInf
   \<and> analyzePhysics_v2 [Parsed inf_high_candles] = Inr (Some inf_atr_signal)"
  by (simp add: analyzePhysics_examples last_nan_high_candles last_gap_candles last_inf_high_candles)

section \<open>An infinite ATR\<close>

lemma last_inf_high_candles_v1:
  "length inf_high_candles = 40"
  "lastClose inf_high_candles = Fin 100"
  "lastRsi_v1 inf_high_candles = Some (Fin 0)"
  "lastLowerBB_v1 inf_high_candles = Fin (1041 / 10)"
  "lastUpperBB_v1 inf_high_candles = Fin (241 / 2)"
  "lastA_v1 inf_high_candles = Fin (1 / 3)"
  "lastAtr_v1 inf_high_candles = Some PInf"
  by (simp_all add: last_defs inf_high_candles_def mk_simps len_fc rsi_v1_fc lower_v1_fc upper_v1_fc
      acc_v1_fc atr_v1_const [OF tr_inf] atr_values_constant)
    (simp add: falling_closes_def)

lemma analyze_inf_high_v1: "analyzeCandles_v1 inf_high_candles = Some inf_atr_signal_v1"
  by (simp add: analyzeCandles_v1_last last_inf_high_candles_v1 inf_atr_signal_v1_def decide_eval)

lemma analyzePhysics_inf_high:
  "analyzePhysics_v1 [Parsed inf_high_candles] 120 = Inr (Some inf_atr_signal_v1)"
  "analyzePhysics_v2 [Parsed inf_high_candles] = Inr (Some inf_atr_signal)"
  using analyzePhysics_mk_candles [of falling_closes "map (\<lambda>c. PInf) falling_closes" "lows_around 1 falling_closes"]
    analyze_inf_high_v1 analyze_inf_high
  by (simp_all add: len_fc inf_high_candles_def [symmetric])

text \<open>
  Claim C10 as stated fails when the ATR is infinite, which is above zero as well: the
  quotient of the two infinite distances is NaN, so the first variant returns a
  risk-reward of \<open>null\<close> and the second one of 0.
\<close>

theorem infinite_atr_risk_reward_not_two:
  "lastAtr_v1 inf_high_candles = Some PInf \<and> lastAtr_v2 inf_high_candles = Some PInf
   \<and> js_gt PInf (Fin 0)
   \<and> analyzePhysics_v1 [Parsed inf_high_candles] 120 = Inr (Some inf_atr_signal_v1)
   \<and> rr inf_atr_signal_v1 = None
   \<and> analyzePhysics_v2 [Parsed inf_high_candles] = Inr (Some inf_atr_signal)
   \<and> rr inf_atr_signal = Some (Fin 0)"
  by (simp add: analyzePhysics_inf_high last_inf_high_candles_v1 last_inf_high_candles js_gt_def
      inf_atr_signal_v1_def inf_atr_signal_def)
end
